theory Spec2Isabelle
  imports Main "HOL-Library.Word"
begin

section \<open>Bytes, buffers and strings\<close>

text \<open>
  A Node \<open>Buffer\<close> is a list of bytes. A JavaScript string is modelled by its UTF-8
  encoding, one \<open>char\<close> per byte, so that \<open>Buffer.from(s)\<close> and \<open>buf.toString()\<close> are the
  conversions between chars and bytes, and \<open>Buffer.byteLength\<close> is the length of the list.
  This is exact for well-formed UTF-8.
\<close>

type_synonym byte = "8 word"
type_synonym Buffer = "byte list"

definition Buffer_from :: "string \<Rightarrow> Buffer" where
  "Buffer_from s = map (\<lambda>c. of_nat (of_char c)) s"

definition Buffer_toString :: "Buffer \<Rightarrow> string" where
  "Buffer_toString b = map (\<lambda>w. char_of (unat w)) b"

subsection \<open>Hexadecimal strings\<close>

definition hexDigit :: "nat \<Rightarrow> char" where
  "hexDigit n = (if n < 10 then char_of (48 + n) else char_of (87 + n))"

definition hexValue :: "char \<Rightarrow> nat option" where
  "hexValue c =
     (let i = (of_char c :: nat) in
      if 48 \<le> i \<and> i \<le> 57 then Some (i - 48)
      else if 97 \<le> i \<and> i \<le> 102 then Some (i - 87)
      else if 65 \<le> i \<and> i \<le> 70 then Some (i - 55)
      else None)"

text \<open>\<open>buf.toString('hex')\<close>: two lower-case digits per byte.\<close>

definition toHex :: "Buffer \<Rightarrow> string" where
  "toHex b = concat (map (\<lambda>w. [hexDigit (unat w div 16), hexDigit (unat w mod 16)]) b)"

text \<open>
  \<open>Buffer.from(s, 'hex')\<close>: one byte per pair of digits; decoding stops at the first pair
  that is not hexadecimal, and a trailing single digit is dropped.
\<close>

fun fromHex :: "string \<Rightarrow> Buffer" where
  "fromHex (a # b # rest) =
     (case hexValue a of
        None \<Rightarrow> []
      | Some x \<Rightarrow> (case hexValue b of
                    None \<Rightarrow> []
                  | Some y \<Rightarrow> of_nat (16 * x + y) # fromHex rest))"
| "fromHex _ = []"

text \<open>A string of lower-case hexadecimal digits, as \<open>toString('hex')\<close> produces them.\<close>

definition lowerHexChar :: "char \<Rightarrow> bool" where
  "lowerHexChar c =
     (let i = (of_char c :: nat) in (48 \<le> i \<and> i \<le> 57) \<or> (97 \<le> i \<and> i \<le> 102))"

definition lowerHex :: "string \<Rightarrow> bool" where
  "lowerHex s = list_all lowerHexChar s"

section \<open>Errors\<close>

text \<open>One constructor for each \<open>throw\<close> of the source and of the collaborators it calls.\<close>

datatype error =
    InvalidNumberOfPublicKeys
  | InvalidNumberOfPublicKeysOrSignatures
  | PublicKeysMustBeCompressed
  | InvalidAddressHashMode
  | StringLengthExceedsMaximum nat
  | MemoExceedsMaximumLength nat
  | CoinbaseBufferSize nat
  | UnexpectedPrincipalType byte
  | UnexpectedEof
  | InvalidC32Address
  | ByteArrayTooLong
  | UndefinedChunk
  | TypeError

section \<open>utils: BufferArray and the conversions\<close>

text \<open>
  Modelled from the spec: \<open>BufferArray\<close> of utils.ts, which is not among the sources. It
  accumulates byte chunks in append order and concatenates them on demand; it has no failure
  mode.
\<close>

type_synonym BufferArray = "Buffer list"

definition push :: "BufferArray \<Rightarrow> Buffer \<Rightarrow> BufferArray" where
  "push bufferArray chunk = bufferArray @ [chunk]"

definition appendHexString :: "BufferArray \<Rightarrow> string \<Rightarrow> BufferArray" where
  "appendHexString bufferArray hexString = push bufferArray (fromHex hexString)"

definition appendByte :: "BufferArray \<Rightarrow> byte \<Rightarrow> BufferArray" where
  "appendByte bufferArray octet = push bufferArray [octet]"

definition concatBuffer :: "BufferArray \<Rightarrow> Buffer" where
  "concatBuffer bufferArray = concat bufferArray"

text \<open>
  Modelled from the spec: \<open>intToHexString\<close> of utils.ts, which is not among the sources.
  The integer is written big-endian in exactly \<open>lengthBytes\<close> bytes, that is \<open>2 * lengthBytes\<close>
  hexadecimal digits. The spec is silent about an integer that does not fit; the digits
  computed here are then its low-order ones, and every theorem below assumes that it fits.
\<close>

fun hexDigits :: "nat \<Rightarrow> nat \<Rightarrow> string" where
  "hexDigits 0 n = []"
| "hexDigits (Suc k) n = hexDigits k (n div 16) @ [hexDigit (n mod 16)]"

definition intToHexString :: "nat \<Rightarrow> nat \<Rightarrow> string" where
  "intToHexString integer lengthBytes = hexDigits (2 * lengthBytes) integer"

text \<open>
  Modelled from the spec: \<open>hexStringToInt\<close> of utils.ts, which is not among the sources:
  the big-endian value of the digits. Reading stops at a character that is not a digit; the
  value of no digits is taken as 0.
\<close>

fun parseHex :: "nat \<Rightarrow> string \<Rightarrow> nat" where
  "parseHex acc [] = acc"
| "parseHex acc (c # cs) =
     (case hexValue c of None \<Rightarrow> acc | Some d \<Rightarrow> parseHex (16 * acc + d) cs)"

definition hexStringToInt :: "string \<Rightarrow> nat" where
  "hexStringToInt hexString = parseHex 0 hexString"

text \<open>
  Modelled from the spec: \<open>exceedsMaxLengthBytes\<close> of utils.ts, which is not among the
  sources: whether the encoded byte length of the content exceeds the ceiling. Both
  \<open>lengthPrefixedString\<close> and \<open>memoString\<close> call this one validator.
\<close>

definition exceedsMaxLengthBytes :: "string \<Rightarrow> nat \<Rightarrow> bool" where
  "exceedsMaxLengthBytes string maxLengthBytes \<longleftrightarrow> length (Buffer_from string) > maxLengthBytes"

text \<open>
  Modelled from the spec: \<open>rightPadHexToLength\<close> of utils.ts, which is not among the
  sources: the hexadecimal string grown to the target width with zero digits on the right,
  never truncated.
\<close>

definition rightPadHexToLength :: "string \<Rightarrow> nat \<Rightarrow> string" where
  "rightPadHexToLength hexString len = hexString @ replicate (len - length hexString) CHR ''0''"

section \<open>binaryReader: BufferReader\<close>

text \<open>
  Modelled from the spec: \<open>BufferReader\<close> of binaryReader.ts, which is not among the
  sources: a forward-only cursor over a fixed byte sequence. The reader is represented by
  the bytes that remain after the cursor; a read returns the next bytes together with the
  advanced reader, and fails with \<open>UnexpectedEof\<close> when fewer bytes remain.
\<close>

type_synonym BufferReader = "Buffer"

definition readBuffer :: "nat \<Rightarrow> BufferReader \<Rightarrow> error + (Buffer \<times> BufferReader)" where
  "readBuffer n bufferReader =
     (if n \<le> length bufferReader then Inr (take n bufferReader, drop n bufferReader)
      else Inl UnexpectedEof)"

definition readUInt8 :: "BufferReader \<Rightarrow> error + (nat \<times> BufferReader)" where
  "readUInt8 bufferReader =
     (case bufferReader of [] \<Rightarrow> Inl UnexpectedEof | b # rest \<Rightarrow> Inr (unat b, rest))"

section \<open>constants and collaborators\<close>

datatype StacksMessageType = Address | LengthPrefixedString | MemoString | AssetInfo

text \<open>
  \<open>StacksMessageType\<close> is a numeric enum without initialisers: its members are numbered
  from 0 in the order of their declaration.
\<close>

fun StacksMessageType_value :: "StacksMessageType \<Rightarrow> nat" where
  "StacksMessageType_value Address = 0"
| "StacksMessageType_value LengthPrefixedString = 1"
| "StacksMessageType_value MemoString = 2"
| "StacksMessageType_value AssetInfo = 3"

datatype PrincipalType = Standard | Contract

datatype AddressHashMode = SerializeP2PKH | SerializeP2SH | SerializeP2WPKH | SerializeP2WSH

datatype PayloadType = TokenTransfer | ContractCall | SmartContract | PoisonMicroblock | Coinbase

typedecl ClarityValue

text \<open>
  The module constants.ts is not among the sources, and the spec gives no value for its
  constants, so they are parameters: the three lengths and the wire bytes of the two
  enumerations. So are the collaborators outside this repository's core: the c32check
  address decoder (\<open>None\<close> when it throws), the public-key hash and the Clarity value
  serializer.
\<close>

record env =
  MAX_STRING_LENGTH_BYTES :: nat
  MEMO_MAX_LENGTH_BYTES :: nat
  COINBASE_BUFFER_LENGTH_BYTES :: nat
  PrincipalType_byte :: "PrincipalType \<Rightarrow> byte"
  PayloadType_byte :: "PayloadType \<Rightarrow> byte"
  c32addressDecode :: "string \<Rightarrow> (nat \<times> string) option"
  hash_p2pkh :: "string \<Rightarrow> string"
  serializeCV :: "ClarityValue \<Rightarrow> Buffer"

text \<open>
  The number of a member of \<open>PrincipalType\<close>, and whether a number is the number of one of
  its two members, which is what the two principal cases of a \<open>switch\<close> test.
\<close>

definition PrincipalType_value :: "env \<Rightarrow> PrincipalType \<Rightarrow> nat" where
  "PrincipalType_value E t = unat (PrincipalType_byte E t)"

definition principal_tag :: "env \<Rightarrow> nat \<Rightarrow> bool" where
  "principal_tag E t \<longleftrightarrow> t = PrincipalType_value E Standard \<or> t = PrincipalType_value E Contract"

text \<open>
  Modelled from the spec: \<open>readUInt8Enum\<close> of binaryReader.ts, instantiated at
  \<open>PrincipalType\<close>: it reads one byte and maps it to the variant with that value, failing
  when there is none.
\<close>

definition readUInt8Enum_PrincipalType ::
  "env \<Rightarrow> BufferReader \<Rightarrow> error + (PrincipalType \<times> BufferReader)" where
  "readUInt8Enum_PrincipalType E bufferReader =
     (case bufferReader of
        [] \<Rightarrow> Inl UnexpectedEof
      | b # rest \<Rightarrow>
          if b = PrincipalType_byte E Standard then Inr (Standard, rest)
          else if b = PrincipalType_byte E Contract then Inr (Contract, rest)
          else Inl (UnexpectedPrincipalType b))"

section \<open>types.ts\<close>

subsection \<open>Address\<close>

record Address =
  version :: nat
  data :: string

definition address :: "env \<Rightarrow> string \<Rightarrow> error + Address" where
  "address E c32AddressString =
     (case c32addressDecode E c32AddressString of
        None \<Rightarrow> Inl InvalidC32Address
      | Some addressData \<Rightarrow> Inr \<lparr>version = fst addressData, data = snd addressData\<rparr>)"

definition addressFromData :: "nat \<Rightarrow> string \<Rightarrow> Address" where
  "addressFromData v d = \<lparr>version = v, data = d\<rparr>"

definition serializeAddress :: "Address \<Rightarrow> Buffer" where
  "serializeAddress a =
     concatBuffer (appendHexString (appendHexString [] (intToHexString (version a) 1)) (data a))"

definition deserializeAddress :: "BufferReader \<Rightarrow> error + (Address \<times> BufferReader)" where
  "deserializeAddress bufferReader =
     (case readBuffer 1 bufferReader of
        Inl e \<Rightarrow> Inl e
      | Inr (b1, r1) \<Rightarrow>
          (case readBuffer 20 r1 of
             Inl e \<Rightarrow> Inl e
           | Inr (b2, r2) \<Rightarrow>
               Inr (\<lparr>version = hexStringToInt (toHex b1), data = toHex b2\<rparr>, r2)))"

text \<open>
  A well-formed address: the version is one byte and the data are the 40 lower-case
  hexadecimal digits of a 20-byte hash, as \<open>deserializeAddress\<close> produces them.
\<close>

definition valid_address :: "Address \<Rightarrow> bool" where
  "valid_address a \<longleftrightarrow> version a < 256 \<and> length (data a) = 40 \<and> lowerHex (data a)"

subsection \<open>LengthPrefixedString\<close>

record LengthPrefixedString =
  content :: string
  lengthPrefixBytes :: nat
  maxLengthBytes :: nat

text \<open>
  An optional numeric parameter is a \<open>nat option\<close>; \<open>x || d\<close> is \<open>d\<close> when \<open>x\<close> is
  omitted or 0.
\<close>

definition or_default :: "nat option \<Rightarrow> nat \<Rightarrow> nat" where
  "or_default x d = (case x of None \<Rightarrow> d | Some n \<Rightarrow> if n = 0 then d else n)"

definition lengthPrefixedString ::
  "env \<Rightarrow> string \<Rightarrow> nat option \<Rightarrow> nat option \<Rightarrow> error + LengthPrefixedString" where
  "lengthPrefixedString E c lengthPrefixBytes' maxLengthBytes' =
     (let prefixLength = or_default lengthPrefixBytes' 1;
          maxLength = or_default maxLengthBytes' (MAX_STRING_LENGTH_BYTES E)
      in if exceedsMaxLengthBytes c maxLength then Inl (StringLengthExceedsMaximum maxLength)
         else Inr \<lparr>content = c, lengthPrefixBytes = prefixLength, maxLengthBytes = maxLength\<rparr>)"

definition serializeLPString :: "LengthPrefixedString \<Rightarrow> Buffer" where
  "serializeLPString lps =
     (let contentBuffer = Buffer_from (content lps);
          len = length contentBuffer
      in concatBuffer
           (push (appendHexString [] (intToHexString len (lengthPrefixBytes lps))) contentBuffer))"

definition deserializeLPString ::
  "env \<Rightarrow> BufferReader \<Rightarrow> error + (LengthPrefixedString \<times> BufferReader)" where
  "deserializeLPString E bufferReader =
     (case readUInt8 bufferReader of
        Inl e \<Rightarrow> Inl e
      | Inr (len, r1) \<Rightarrow>
          (case readBuffer len r1 of
             Inl e \<Rightarrow> Inl e
           | Inr (b, r2) \<Rightarrow>
               (case lengthPrefixedString E (Buffer_toString b) (Some len) None of
                  Inl e \<Rightarrow> Inl e
                | Inr lps \<Rightarrow> Inr (lps, r2))))"

text \<open>
  The strings that \<open>deserializeLPString\<close> can read back: the length was written in one
  byte and fits in it, and the content is short enough for the constructor that the decoder
  calls with the default maximum.
\<close>

definition readable_back :: "env \<Rightarrow> LengthPrefixedString \<Rightarrow> bool" where
  "readable_back E l \<longleftrightarrow>
     lengthPrefixBytes l = 1 \<and> length (content l) < 256 \<and>
     length (content l) \<le> MAX_STRING_LENGTH_BYTES E"

definition codeBodyString :: "env \<Rightarrow> string \<Rightarrow> error + LengthPrefixedString" where
  "codeBodyString E c = lengthPrefixedString E c (Some 4) (Some 100000)"

subsection \<open>MemoString\<close>

record MemoString =
  memo_content :: string

definition memoString :: "env \<Rightarrow> string \<Rightarrow> error + MemoString" where
  "memoString E c =
     (if c \<noteq> [] \<and> exceedsMaxLengthBytes c (MEMO_MAX_LENGTH_BYTES E)
      then Inl (MemoExceedsMaximumLength (MEMO_MAX_LENGTH_BYTES E))
      else Inr \<lparr>memo_content = c\<rparr>)"

definition serializeMemoString :: "env \<Rightarrow> MemoString \<Rightarrow> Buffer" where
  "serializeMemoString E memoString' =
     (let contentBuffer = Buffer_from (memo_content memoString');
          paddedContent = rightPadHexToLength (toHex contentBuffer) (MEMO_MAX_LENGTH_BYTES E * 2)
      in concatBuffer (push [] (fromHex paddedContent)))"

definition deserializeMemoString ::
  "env \<Rightarrow> BufferReader \<Rightarrow> error + (MemoString \<times> BufferReader)" where
  "deserializeMemoString E bufferReader =
     (case readBuffer (MEMO_MAX_LENGTH_BYTES E) bufferReader of
        Inl e \<Rightarrow> Inl e
      | Inr (b, r) \<Rightarrow> Inr (\<lparr>memo_content = Buffer_toString b\<rparr>, r))"

subsection \<open>Principal\<close>

datatype Principal =
    StandardPrincipal (principal_address: Address)
  | ContractPrincipal (principal_address: Address) (principal_contractName: LengthPrefixedString)

fun principal_type :: "Principal \<Rightarrow> PrincipalType" where
  "principal_type (StandardPrincipal a) = Standard"
| "principal_type (ContractPrincipal a n) = Contract"

definition standardPrincipal :: "env \<Rightarrow> string \<Rightarrow> error + Principal" where
  "standardPrincipal E addressString =
     (case address E addressString of
        Inl e \<Rightarrow> Inl e
      | Inr addr \<Rightarrow> Inr (StandardPrincipal addr))"

definition contractPrincipal :: "env \<Rightarrow> string \<Rightarrow> string \<Rightarrow> error + Principal" where
  "contractPrincipal E addressString contractName' =
     (case address E addressString of
        Inl e \<Rightarrow> Inl e
      | Inr addr \<Rightarrow>
          (case lengthPrefixedString E contractName' None None of
             Inl e \<Rightarrow> Inl e
           | Inr name \<Rightarrow> Inr (ContractPrincipal addr name)))"

definition serializePrincipal :: "env \<Rightarrow> Principal \<Rightarrow> Buffer" where
  "serializePrincipal E p =
     (let bufferArray = push [] [PrincipalType_byte E (principal_type p)];
          bufferArray = push bufferArray (serializeAddress (principal_address p));
          bufferArray = (case p of
                           ContractPrincipal a n \<Rightarrow> push bufferArray (serializeLPString n)
                         | StandardPrincipal a \<Rightarrow> bufferArray)
      in concatBuffer bufferArray)"

definition deserializePrincipal :: "env \<Rightarrow> BufferReader \<Rightarrow> error + (Principal \<times> BufferReader)" where
  "deserializePrincipal E bufferReader =
     (case readUInt8Enum_PrincipalType E bufferReader of
        Inl e \<Rightarrow> Inl e
      | Inr (ty, r1) \<Rightarrow>
          (case deserializeAddress r1 of
             Inl e \<Rightarrow> Inl e
           | Inr (addr, r2) \<Rightarrow>
               if ty = Standard then Inr (StandardPrincipal addr, r2)
               else (case deserializeLPString E r2 of
                       Inl e \<Rightarrow> Inl e
                     | Inr (name, r3) \<Rightarrow> Inr (ContractPrincipal addr name, r3))))"

subsection \<open>AssetInfo\<close>

text \<open>
  The interface declares \<open>type: StacksMessageType.AssetInfo\<close>, a type of one value. The
  field is optional here because the factory \<open>assetInfo\<close> builds its object without it.
\<close>

datatype AssetInfo_type = StacksMessageType_AssetInfo

record AssetInfo =
  ai_type :: "AssetInfo_type option"
  ai_address :: Address
  ai_contractName :: LengthPrefixedString
  ai_assetName :: LengthPrefixedString

definition assetInfo :: "env \<Rightarrow> string \<Rightarrow> string \<Rightarrow> string \<Rightarrow> error + AssetInfo" where
  "assetInfo E addressString contractName' assetName' =
     (case address E addressString of
        Inl e \<Rightarrow> Inl e
      | Inr addr \<Rightarrow>
          (case lengthPrefixedString E contractName' None None of
             Inl e \<Rightarrow> Inl e
           | Inr cname \<Rightarrow>
               (case lengthPrefixedString E assetName' None None of
                  Inl e \<Rightarrow> Inl e
                | Inr aname \<Rightarrow>
                    Inr \<lparr>ai_type = None, ai_address = addr,
                         ai_contractName = cname, ai_assetName = aname\<rparr>)))"

definition serializeAssetInfo :: "AssetInfo \<Rightarrow> Buffer" where
  "serializeAssetInfo info =
     concatBuffer
       (push (push (push [] (serializeAddress (ai_address info)))
                (serializeLPString (ai_contractName info)))
          (serializeLPString (ai_assetName info)))"

definition deserializeAssetInfo :: "env \<Rightarrow> BufferReader \<Rightarrow> error + (AssetInfo \<times> BufferReader)" where
  "deserializeAssetInfo E bufferReader =
     (case deserializeAddress bufferReader of
        Inl e \<Rightarrow> Inl e
      | Inr (addr, r1) \<Rightarrow>
          (case deserializeLPString E r1 of
             Inl e \<Rightarrow> Inl e
           | Inr (cname, r2) \<Rightarrow>
               (case deserializeLPString E r2 of
                  Inl e \<Rightarrow> Inl e
                | Inr (aname, r3) \<Rightarrow>
                    Inr (\<lparr>ai_type = Some StacksMessageType_AssetInfo, ai_address = addr,
                          ai_contractName = cname, ai_assetName = aname\<rparr>, r3))))"

subsection \<open>StacksMessage and its dispatcher\<close>

datatype StacksMessage =
    MAddress Address
  | MPrincipal Principal
  | MLengthPrefixedString LengthPrefixedString
  | MMemoString MemoString
  | MAssetInfo AssetInfo

text \<open>
  The \<open>type\<close> property of a message, a number: every interface but AssetInfo fixes it to
  one member of \<open>StacksMessageType\<close> or \<open>PrincipalType\<close>; an asset info built by the factory
  has none.
\<close>

fun message_type :: "env \<Rightarrow> StacksMessage \<Rightarrow> nat option" where
  "message_type E (MAddress a) = Some (StacksMessageType_value Address)"
| "message_type E (MPrincipal p) = Some (PrincipalType_value E (principal_type p))"
| "message_type E (MLengthPrefixedString l) = Some (StacksMessageType_value LengthPrefixedString)"
| "message_type E (MMemoString m) = Some (StacksMessageType_value MemoString)"
| "message_type E (MAssetInfo i) =
     (case ai_type i of
        None \<Rightarrow> None
      | Some StacksMessageType_AssetInfo \<Rightarrow> Some (StacksMessageType_value AssetInfo))"

text \<open>
  The \<open>switch\<close> passes the message to the serializer of the first case whose number equals
  \<open>message.type\<close>. The values of \<open>PrincipalType\<close> are declared in constants.ts; when one of
  them is the number of a member of \<open>StacksMessageType\<close>, a serializer receives an object of
  another interface. \<open>serializeAddress\<close> on an object without \<open>version\<close> and \<open>data\<close>, and
  \<open>serializePrincipal\<close> on an object without \<open>address\<close> (\<open>serializeAddress\<close> then reads a
  property of \<open>undefined\<close>), throw a TypeError. \<open>serializePrincipal\<close> on an asset info finds
  the properties it reads: it writes the \<open>type\<close> as a byte, the address, and the contract
  name when the \<open>type\<close> is the number of \<open>PrincipalType.Contract\<close>.
\<close>

definition serializeAddress_on :: "StacksMessage \<Rightarrow> error + Buffer" where
  "serializeAddress_on message =
     (case message of MAddress a \<Rightarrow> Inr (serializeAddress a) | _ \<Rightarrow> Inl TypeError)"

definition serializePrincipal_on :: "env \<Rightarrow> StacksMessage \<Rightarrow> error + Buffer" where
  "serializePrincipal_on E message =
     (case message of
        MPrincipal p \<Rightarrow> Inr (serializePrincipal E p)
      | MAssetInfo i \<Rightarrow>
          (let ty = message_type E message;
               bufferArray = push [] [case ty of None \<Rightarrow> 0 | Some t \<Rightarrow> of_nat t];
               bufferArray = push bufferArray (serializeAddress (ai_address i));
               bufferArray = (if ty = Some (PrincipalType_value E Contract)
                              then push bufferArray (serializeLPString (ai_contractName i))
                              else bufferArray)
           in Inr (concatBuffer bufferArray))
      | _ \<Rightarrow> Inl TypeError)"

text \<open>
  The value returned by a case: the serializer's buffer, or its exception.
\<close>

definition returned :: "error + Buffer \<Rightarrow> error + Buffer option" where
  "returned r = (case r of Inl e \<Rightarrow> Inl e | Inr b \<Rightarrow> Inr (Some b))"

text \<open>
  The cases in the order of the source: Address, the two principal cases, then
  LengthPrefixedString, MemoString and AssetInfo. The \<open>switch\<close> has no default case: a
  message without a \<open>type\<close> property matches none of the cases and the function returns
  \<open>undefined\<close>, here \<open>Inr None\<close>. The last three cases are reached only by a message of their
  own interface, every other message having the number 0, a principal number or none; the
  alternative written for other objects is never taken.
\<close>

definition serializeStacksMessage :: "env \<Rightarrow> StacksMessage \<Rightarrow> error + Buffer option" where
  "serializeStacksMessage E message =
     (case message_type E message of
        None \<Rightarrow> Inr None
      | Some t \<Rightarrow>
          if t = StacksMessageType_value Address then returned (serializeAddress_on message)
          else if t = PrincipalType_value E Standard \<or> t = PrincipalType_value E Contract
          then returned (serializePrincipal_on E message)
          else if t = StacksMessageType_value LengthPrefixedString
          then (case message of
                  MLengthPrefixedString l \<Rightarrow> Inr (Some (serializeLPString l))
                | _ \<Rightarrow> Inl TypeError)
          else if t = StacksMessageType_value MemoString
          then (case message of
                  MMemoString m \<Rightarrow> Inr (Some (serializeMemoString E m))
                | _ \<Rightarrow> Inl TypeError)
          else if t = StacksMessageType_value AssetInfo
          then (case message of
                  MAssetInfo i \<Rightarrow> Inr (Some (serializeAssetInfo i))
                | _ \<Rightarrow> Inl TypeError)
          else Inr None)"

subsection \<open>LengthPrefixedList\<close>

record LengthPrefixedList =
  list_lengthPrefixBytes :: nat
  list_values :: "StacksMessage list"

definition lengthPrefixedList :: "StacksMessage list \<Rightarrow> nat option \<Rightarrow> LengthPrefixedList" where
  "lengthPrefixedList vs lengthPrefixBytes' =
     \<lparr>list_lengthPrefixBytes = or_default lengthPrefixBytes' 4, list_values = vs\<rparr>"

text \<open>
  The body of the loop of \<open>deserializeLengthPrefixedList\<close> is a \<open>switch\<close> whose cases do not
  end in \<open>break\<close>: control enters at the case of the supplied type and runs through every
  case below it. Each function here is one case followed by the cases after it.
\<close>

definition case_Principal ::
  "env \<Rightarrow> StacksMessage list \<Rightarrow> BufferReader \<Rightarrow> error + (StacksMessage list \<times> BufferReader)" where
  "case_Principal E l r =
     (case deserializePrincipal E r of
        Inl e \<Rightarrow> Inl e
      | Inr (p, r') \<Rightarrow> Inr (l @ [MPrincipal p], r'))"

definition case_AssetInfo ::
  "env \<Rightarrow> StacksMessage list \<Rightarrow> BufferReader \<Rightarrow> error + (StacksMessage list \<times> BufferReader)" where
  "case_AssetInfo E l r =
     (case deserializeAssetInfo E r of
        Inl e \<Rightarrow> Inl e
      | Inr (i, r') \<Rightarrow> case_Principal E (l @ [MAssetInfo i]) r')"

definition case_MemoString ::
  "env \<Rightarrow> StacksMessage list \<Rightarrow> BufferReader \<Rightarrow> error + (StacksMessage list \<times> BufferReader)" where
  "case_MemoString E l r =
     (case deserializeMemoString E r of
        Inl e \<Rightarrow> Inl e
      | Inr (m, r') \<Rightarrow> case_AssetInfo E (l @ [MMemoString m]) r')"

definition case_LengthPrefixedString ::
  "env \<Rightarrow> StacksMessage list \<Rightarrow> BufferReader \<Rightarrow> error + (StacksMessage list \<times> BufferReader)" where
  "case_LengthPrefixedString E l r =
     (case deserializeLPString E r of
        Inl e \<Rightarrow> Inl e
      | Inr (s, r') \<Rightarrow> case_MemoString E (l @ [MLengthPrefixedString s]) r')"

definition case_Address ::
  "env \<Rightarrow> StacksMessage list \<Rightarrow> BufferReader \<Rightarrow> error + (StacksMessage list \<times> BufferReader)" where
  "case_Address E l r =
     (case deserializeAddress r of
        Inl e \<Rightarrow> Inl e
      | Inr (a, r') \<Rightarrow> case_LengthPrefixedString E (l @ [MAddress a]) r')"

text \<open>
  The \<open>type\<close> argument is a number, and the cases are tested in the order Address,
  LengthPrefixedString, MemoString, AssetInfo, then the two principal cases: a principal
  type whose number is that of an earlier member enters at the earlier case. When no case
  matches, the body pushes nothing.
\<close>

fun type_value :: "env \<Rightarrow> StacksMessageType + PrincipalType \<Rightarrow> nat" where
  "type_value E (Inl t) = StacksMessageType_value t"
| "type_value E (Inr t) = PrincipalType_value E t"

definition switch_type ::
  "env \<Rightarrow> StacksMessageType + PrincipalType \<Rightarrow> StacksMessage list \<Rightarrow> BufferReader
     \<Rightarrow> error + (StacksMessage list \<times> BufferReader)" where
  "switch_type E ty l r =
     (let t = type_value E ty in
      if t = StacksMessageType_value Address then case_Address E l r
      else if t = StacksMessageType_value LengthPrefixedString
      then case_LengthPrefixedString E l r
      else if t = StacksMessageType_value MemoString then case_MemoString E l r
      else if t = StacksMessageType_value AssetInfo then case_AssetInfo E l r
      else if t = PrincipalType_value E Standard \<or> t = PrincipalType_value E Contract
      then case_Principal E l r
      else Inr (l, r))"

text \<open>The \<open>for\<close> loop, by recursion on the number of iterations that remain.\<close>

fun list_loop ::
  "env \<Rightarrow> StacksMessageType + PrincipalType \<Rightarrow> nat \<Rightarrow> StacksMessage list \<Rightarrow> BufferReader
     \<Rightarrow> error + (StacksMessage list \<times> BufferReader)" where
  "list_loop E ty 0 l r = Inr (l, r)"
| "list_loop E ty (Suc n) l r =
     (case switch_type E ty l r of
        Inl e \<Rightarrow> Inl e
      | Inr (l', r') \<Rightarrow> list_loop E ty n l' r')"

definition deserializeLengthPrefixedList ::
  "env \<Rightarrow> BufferReader \<Rightarrow> nat \<Rightarrow> StacksMessageType + PrincipalType
     \<Rightarrow> error + (LengthPrefixedList \<times> BufferReader)" where
  "deserializeLengthPrefixedList E bufferReader lengthPrefixBytes' ty =
     (case readBuffer lengthPrefixBytes' bufferReader of
        Inl e \<Rightarrow> Inl e
      | Inr (b, r) \<Rightarrow>
          (case list_loop E ty (hexStringToInt (toHex b)) [] r of
             Inl e \<Rightarrow> Inl e
           | Inr (l, r') \<Rightarrow> Inr (lengthPrefixedList l (Some lengthPrefixBytes'), r')))"

subsection \<open>fromPublicKeys\<close>

text \<open>
  \<open>StacksPublicKey\<close> is declared in keys.ts, which is not among the sources; a key is
  represented by what \<open>fromPublicKeys\<close> observes of it, the results of \<open>compressed()\<close> and
  \<open>toString()\<close>.
\<close>

record StacksPublicKey =
  compressed :: bool
  pk_toString :: string

fun compressed_loop :: "StacksPublicKey list \<Rightarrow> error + unit" where
  "compressed_loop [] = Inr ()"
| "compressed_loop (k # ks) =
     (if \<not> compressed k then Inl PublicKeysMustBeCompressed else compressed_loop ks)"

definition fromPublicKeys ::
  "env \<Rightarrow> nat \<Rightarrow> AddressHashMode \<Rightarrow> nat \<Rightarrow> StacksPublicKey list \<Rightarrow> error + Address" where
  "fromPublicKeys E v hashMode numSigs publicKeys =
     (if length publicKeys = 0 then Inl InvalidNumberOfPublicKeys
      else if (hashMode = SerializeP2PKH \<or> hashMode = SerializeP2WPKH)
              \<and> (length publicKeys \<noteq> 1 \<or> numSigs \<noteq> 1)
      then Inl InvalidNumberOfPublicKeysOrSignatures
      else
        (case (if hashMode = SerializeP2WPKH \<or> hashMode = SerializeP2WSH
               then compressed_loop publicKeys else Inr ()) of
           Inl e \<Rightarrow> Inl e
         | Inr u \<Rightarrow>
             (case hashMode of
                SerializeP2PKH \<Rightarrow>
                  Inr (addressFromData v (hash_p2pkh E (pk_toString (publicKeys ! 0))))
              | _ \<Rightarrow> Inl InvalidAddressHashMode)))"

section \<open>Payloads\<close>

text \<open>
  The variants of \<open>Payload\<close>, each with the fields of its interface; \<open>payloadType\<close> is
  determined by the variant. The amount, a bn.js number, is a natural number.
\<close>

datatype Payload =
    TokenTransferPayload (recipientAddress: Address) (amount: nat) (memo: MemoString)
  | ContractCallPayload (contractAddress: Address) (contractName: LengthPrefixedString)
      (functionName: LengthPrefixedString) (functionArgs: "ClarityValue list")
  | SmartContractPayload (contractName: LengthPrefixedString) (codeBody: LengthPrefixedString)
  | PoisonPayload
  | CoinbasePayload (coinbaseBuffer: Buffer)

fun payloadType :: "Payload \<Rightarrow> PayloadType" where
  "payloadType (TokenTransferPayload a n m) = TokenTransfer"
| "payloadType (ContractCallPayload a c f args) = ContractCall"
| "payloadType (SmartContractPayload c b) = SmartContract"
| "payloadType PoisonPayload = PoisonMicroblock"
| "payloadType (CoinbasePayload b) = Coinbase"

definition tokenTransferPayload :: "env \<Rightarrow> string \<Rightarrow> nat \<Rightarrow> string option \<Rightarrow> error + Payload" where
  "tokenTransferPayload E recipientAddress' amount' memo' =
     (case address E recipientAddress' of
        Inl e \<Rightarrow> Inl e
      | Inr addr \<Rightarrow>
          (case (case memo' of
                   None \<Rightarrow> memoString E []
                 | Some s \<Rightarrow> if s \<noteq> [] then memoString E s else memoString E []) of
             Inl e \<Rightarrow> Inl e
           | Inr m \<Rightarrow> Inr (TokenTransferPayload addr amount' m)))"

definition contractCallPayload ::
  "env \<Rightarrow> string \<Rightarrow> string \<Rightarrow> string \<Rightarrow> ClarityValue list \<Rightarrow> error + Payload" where
  "contractCallPayload E contractAddress' contractName' functionName' functionArgs' =
     (case address E contractAddress' of
        Inl e \<Rightarrow> Inl e
      | Inr addr \<Rightarrow>
          (case lengthPrefixedString E contractName' None None of
             Inl e \<Rightarrow> Inl e
           | Inr cname \<Rightarrow>
               (case lengthPrefixedString E functionName' None None of
                  Inl e \<Rightarrow> Inl e
                | Inr fname \<Rightarrow> Inr (ContractCallPayload addr cname fname functionArgs'))))"

definition smartContractPayload :: "env \<Rightarrow> string \<Rightarrow> string \<Rightarrow> error + Payload" where
  "smartContractPayload E contractName' codeBody' =
     (case lengthPrefixedString E contractName' None None of
        Inl e \<Rightarrow> Inl e
      | Inr name \<Rightarrow>
          (case codeBodyString E contractName' of
             Inl e \<Rightarrow> Inl e
           | Inr body \<Rightarrow> Inr (SmartContractPayload name body)))"

definition poisonPayload :: "Payload" where
  "poisonPayload = PoisonPayload"

definition coinbasePayload :: "env \<Rightarrow> Buffer \<Rightarrow> error + Payload" where
  "coinbasePayload E coinbaseBuffer' =
     (if length coinbaseBuffer' \<noteq> COINBASE_BUFFER_LENGTH_BYTES E
      then Inl (CoinbaseBufferSize (COINBASE_BUFFER_LENGTH_BYTES E))
      else Inr (CoinbasePayload coinbaseBuffer'))"

text \<open>
  Big-endian bytes of a number, as bn.js's \<open>toArrayLike(Buffer, 'be', len)\<close> and
  \<open>writeUInt32BE\<close> lay them out; both throw when the number needs more bytes.
\<close>

fun be_bytes :: "nat \<Rightarrow> nat \<Rightarrow> Buffer" where
  "be_bytes 0 n = []"
| "be_bytes (Suc k) n = be_bytes k (n div 256) @ [of_nat (n mod 256)]"

definition toArrayLike_be :: "nat \<Rightarrow> nat \<Rightarrow> error + Buffer" where
  "toArrayLike_be n len = (if n < 256 ^ len then Inr (be_bytes len n) else Inl ByteArrayTooLong)"

text \<open>
  Pushing the result of the dispatcher: its exception propagates. A chunk that is
  \<open>undefined\<close> makes \<open>Buffer.concat\<close> throw; nothing between the push and \<open>concatBuffer\<close>
  observes the array, so the model raises that error at the push.
\<close>

definition push_message ::
  "env \<Rightarrow> BufferArray \<Rightarrow> StacksMessage \<Rightarrow> error + BufferArray" where
  "push_message E bufferArray message =
     (case serializeStacksMessage E message of
        Inl e \<Rightarrow> Inl e
      | Inr None \<Rightarrow> Inl UndefinedChunk
      | Inr (Some b) \<Rightarrow> Inr (push bufferArray b))"

definition serializePayload :: "env \<Rightarrow> Payload \<Rightarrow> error + Buffer" where
  "serializePayload E payload =
     (let bufferArray = appendByte [] (PayloadType_byte E (payloadType payload)) in
      case payload of
        TokenTransferPayload addr n m \<Rightarrow>
          (case push_message E bufferArray (MAddress addr) of
             Inl e \<Rightarrow> Inl e
           | Inr ba1 \<Rightarrow>
               (case toArrayLike_be n 8 of
                  Inl e \<Rightarrow> Inl e
                | Inr amountBytes \<Rightarrow>
                    (case push_message E (push ba1 amountBytes) (MMemoString m) of
                       Inl e \<Rightarrow> Inl e
                     | Inr ba3 \<Rightarrow> Inr (concatBuffer ba3))))
      | ContractCallPayload addr cname fname args \<Rightarrow>
          (case push_message E bufferArray (MAddress addr) of
             Inl e \<Rightarrow> Inl e
           | Inr ba1 \<Rightarrow>
               (case push_message E ba1 (MLengthPrefixedString cname) of
                  Inl e \<Rightarrow> Inl e
                | Inr ba2 \<Rightarrow>
                    (case push_message E ba2 (MLengthPrefixedString fname) of
                       Inl e \<Rightarrow> Inl e
                     | Inr ba3 \<Rightarrow>
                         (case toArrayLike_be (length args) 4 of
                            Inl e \<Rightarrow> Inl e
                          | Inr numArgs \<Rightarrow>
                              Inr (concatBuffer
                                     (foldl (\<lambda>ba arg. push ba (serializeCV E arg))
                                        (push ba3 numArgs) args))))))
      | SmartContractPayload cname body \<Rightarrow>
          (case push_message E bufferArray (MLengthPrefixedString cname) of
             Inl e \<Rightarrow> Inl e
           | Inr ba1 \<Rightarrow>
               (case push_message E ba1 (MLengthPrefixedString body) of
                  Inl e \<Rightarrow> Inl e
                | Inr ba2 \<Rightarrow> Inr (concatBuffer ba2)))
      | PoisonPayload \<Rightarrow> Inr (concatBuffer bufferArray)
      | CoinbasePayload b \<Rightarrow> Inr (concatBuffer (push bufferArray b)))"

section \<open>An environment for concrete evaluation\<close>

text \<open>
  Values for the parameters, used to run the model on concrete inputs. The address decoder
  knows one address, the c32check form of version 22 with the hash
  \<open>a46ff88886c2ef9762d970b4d2c63678835bd39d\<close>. The numbers of \<open>PrincipalType\<close> differ from
  those of \<open>StacksMessageType\<close>.
\<close>

definition example_env :: env where
  "example_env =
     \<lparr>MAX_STRING_LENGTH_BYTES = 128,
      MEMO_MAX_LENGTH_BYTES = 34,
      COINBASE_BUFFER_LENGTH_BYTES = 32,
      PrincipalType_byte = (\<lambda>t. case t of Standard \<Rightarrow> 5 | Contract \<Rightarrow> 6),
      PayloadType_byte =
        (\<lambda>t. case t of TokenTransfer \<Rightarrow> 0 | ContractCall \<Rightarrow> 2 | SmartContract \<Rightarrow> 1
                      | PoisonMicroblock \<Rightarrow> 3 | Coinbase \<Rightarrow> 4),
      c32addressDecode =
        (\<lambda>s. if s = ''SP2J6ZY48GV1EZ5V2V5RB9MP66SW86PYKKNRV9EJ7''
             then Some (22, ''a46ff88886c2ef9762d970b4d2c63678835bd39d'') else None),
      hash_p2pkh = (\<lambda>s. replicate 40 CHR ''0''),
      serializeCV = (\<lambda>v. [])\<rparr>"

section \<open>Facts about the conversions\<close>

lemma hexValue_hexDigit: "n < 16 \<Longrightarrow> hexValue (hexDigit n) = Some n"
  by (auto simp: hexValue_def hexDigit_def Let_def)

lemma lowerHexChar_digit:
  assumes "lowerHexChar c"
  obtains x where "x < 16" and "hexValue c = Some x" and "hexDigit x = c"
proof -
  let ?i = "of_char c :: nat"
  from assms have range: "(48 \<le> ?i \<and> ?i \<le> 57) \<or> (97 \<le> ?i \<and> ?i \<le> 102)"
    by (simp add: lowerHexChar_def Let_def)
  define x where "x = (if ?i \<le> 57 then ?i - 48 else ?i - 87)"
  from range have "x < 16" by (auto simp: x_def)
  moreover from range have "hexValue c = Some x" by (auto simp: x_def hexValue_def Let_def)
  moreover have "hexDigit x = c"
  proof -
    from range have "hexDigit x = char_of ?i"
      by (auto simp: x_def hexDigit_def)
    then show ?thesis by simp
  qed
  ultimately show thesis by (rule that)
qed

lemma lowerHexChar_hexDigit: "n < 16 \<Longrightarrow> lowerHexChar (hexDigit n)"
  by (auto simp: lowerHexChar_def hexDigit_def Let_def)

lemma unat_byte_less: "unat (w :: byte) < 256"
  using unsigned_less [of w, where 'a = nat] by simp

lemma unat_of_nat_byte: "n < 256 \<Longrightarrow> unat (of_nat n :: byte) = n"
  by (simp add: unat_of_nat)

lemma byte_of_nibbles:
  fixes w :: byte
  shows "of_nat (16 * (unat w div 16) + unat w mod 16) = w"
  by simp

lemma unat_byte_of_nibbles:
  assumes "x < 16" and "y < 16"
  shows "unat (16 * of_nat x + of_nat y :: byte) = 16 * x + y"
proof -
  from assms have "16 * x + y < 256" by simp
  then have "unat (of_nat (16 * x + y) :: byte) = 16 * x + y"
    by (rule unat_of_nat_byte)
  then show ?thesis by simp
qed

lemma fromHex_toHex_append: "fromHex (toHex b @ s) = b @ fromHex s"
proof (induction b)
  case Nil
  show ?case by (simp add: toHex_def)
next
  case (Cons w b)
  have hi: "unat w div 16 < 16" using unat_byte_less [of w] by simp
  have lo: "unat w mod 16 < 16" by simp
  have "toHex (w # b) @ s = hexDigit (unat w div 16) # hexDigit (unat w mod 16) # (toHex b @ s)"
    by (simp add: toHex_def)
  then show ?case
    using Cons.IH by (simp add: hexValue_hexDigit [OF hi] hexValue_hexDigit [OF lo])
qed

lemma fromHex_toHex: "fromHex (toHex b) = b"
  using fromHex_toHex_append [of b "[]"] by simp

lemma length_toHex: "length (toHex b) = 2 * length b"
  by (induction b) (simp_all add: toHex_def)

lemma lowerHex_toHex: "lowerHex (toHex b)"
proof (induction b)
  case Nil
  show ?case by (simp add: toHex_def lowerHex_def)
next
  case (Cons w b)
  have hi: "unat w div 16 < 16" using unat_byte_less [of w] by simp
  have lo: "unat w mod 16 < 16" by simp
  from Cons.IH show ?case
    by (simp add: toHex_def lowerHex_def lowerHexChar_hexDigit [OF hi] lowerHexChar_hexDigit [OF lo])
qed

lemma toHex_fromHex: "lowerHex s \<Longrightarrow> even (length s) \<Longrightarrow> toHex (fromHex s) = s"
proof (induction s rule: fromHex.induct)
  case (1 a b rest)
  from "1.prems" have la: "lowerHexChar a" and lb: "lowerHexChar b" and lr: "lowerHex rest"
    and er: "even (length rest)"
    by (simp_all add: lowerHex_def)
  from la obtain x where x: "x < 16" "hexValue a = Some x" "hexDigit x = a"
    by (rule lowerHexChar_digit)
  from lb obtain y where y: "y < 16" "hexValue b = Some y" "hexDigit y = b"
    by (rule lowerHexChar_digit)
  from "1.IH" [OF x(2) y(2) lr er] have ih: "toHex (fromHex rest) = rest" .
  have "toHex (fromHex (a # b # rest)) =
          hexDigit (unat (of_nat (16 * x + y) :: byte) div 16) #
          hexDigit (unat (of_nat (16 * x + y) :: byte) mod 16) # toHex (fromHex rest)"
    using x(2) y(2) by (simp add: toHex_def)
  also have "\<dots> = a # b # rest"
    using x y ih by (simp add: unat_byte_of_nibbles)
  finally show ?case .
qed (simp_all add: toHex_def)

lemma length_fromHex: "lowerHex s \<Longrightarrow> length (fromHex s) = length s div 2"
proof (induction s rule: fromHex.induct)
  case (1 a b rest)
  from "1.prems" have la: "lowerHexChar a" and lb: "lowerHexChar b" and lr: "lowerHex rest"
    by (simp_all add: lowerHex_def)
  from la obtain x where x: "x < 16" "hexValue a = Some x" "hexDigit x = a"
    by (rule lowerHexChar_digit)
  from lb obtain y where y: "y < 16" "hexValue b = Some y" "hexDigit y = b"
    by (rule lowerHexChar_digit)
  from "1.IH" [OF x(2) y(2) lr] x(2) y(2) show ?case by simp
qed simp_all

lemma fromHex_replicate_zero: "fromHex (replicate (2 * k) CHR ''0'') = replicate k 0"
proof (induction k)
  case 0
  show ?case by simp
next
  case (Suc k)
  have z: "hexValue CHR ''0'' = Some 0" by (simp add: hexValue_def)
  have "replicate (2 * Suc k) CHR ''0'' = CHR ''0'' # CHR ''0'' # replicate (2 * k) CHR ''0''"
    by simp
  then show ?case using Suc.IH z by simp
qed

lemma length_hexDigits: "length (hexDigits k n) = k"
  by (induction k arbitrary: n) simp_all

lemma lowerHex_hexDigits: "lowerHex (hexDigits k n)"
proof (induction k arbitrary: n)
  case 0
  show ?case by (simp add: lowerHex_def)
next
  case (Suc k)
  have "n mod 16 < 16" by simp
  from lowerHexChar_hexDigit [OF this] Suc.IH [of "n div 16"] show ?case
    by (simp add: lowerHex_def)
qed

lemma parseHex_append_digit:
  "lowerHex s \<Longrightarrow> d < 16 \<Longrightarrow> parseHex acc (s @ [hexDigit d]) = 16 * parseHex acc s + d"
proof (induction s arbitrary: acc)
  case Nil
  then show ?case by (simp add: hexValue_hexDigit)
next
  case (Cons c s)
  from Cons.prems have lc: "lowerHexChar c" and ls: "lowerHex s" by (simp_all add: lowerHex_def)
  from lc obtain x where x: "x < 16" "hexValue c = Some x" "hexDigit x = c"
    by (rule lowerHexChar_digit)
  from Cons.IH [OF ls Cons.prems(2)] x(2) show ?case by simp
qed

lemma parseHex_hexDigits: "parseHex 0 (hexDigits k n) = n mod 16 ^ k"
proof (induction k arbitrary: n)
  case 0
  show ?case by simp
next
  case (Suc k)
  have "parseHex 0 (hexDigits (Suc k) n) = 16 * parseHex 0 (hexDigits k (n div 16)) + n mod 16"
    by (simp add: parseHex_append_digit lowerHex_hexDigits)
  also have "\<dots> = 16 * ((n div 16) mod 16 ^ k) + n mod 16"
    by (simp add: Suc.IH)
  also have "\<dots> = n mod 16 ^ Suc k"
    by (simp add: mod_mult2_eq)
  finally show ?case .
qed

lemma hexStringToInt_intToHexString:
  "n < 256 ^ w \<Longrightarrow> hexStringToInt (intToHexString n w) = n"
proof -
  assume "n < 256 ^ w"
  moreover have "(256 :: nat) ^ w = 16 ^ (2 * w)" by (simp add: power_mult)
  ultimately show ?thesis
    by (simp add: hexStringToInt_def intToHexString_def parseHex_hexDigits)
qed

lemma Buffer_toString_from: "Buffer_toString (Buffer_from s) = s"
proof -
  have "char_of (unat (of_nat (of_char c) :: byte)) = c" for c
  proof -
    have "of_char c < (256 :: nat)" by simp
    then have "unat (of_nat (of_char c) :: byte) = of_char c"
      by (rule unat_of_nat_byte)
    then show ?thesis by simp
  qed
  then show ?thesis
    by (simp add: Buffer_toString_def Buffer_from_def map_idI)
qed

lemma length_Buffer_from: "length (Buffer_from s) = length s"
  by (simp add: Buffer_from_def)

section \<open>Facts about the serializers and deserializers\<close>

lemma readBuffer_append: "length p = n \<Longrightarrow> readBuffer n (p @ rest) = Inr (p, rest)"
  by (simp add: readBuffer_def)

lemma fromHex_append:
  assumes "lowerHex s" and "even (length s)"
  shows "fromHex (s @ t) = fromHex s @ fromHex t"
proof -
  from assms have "s = toHex (fromHex s)" by (simp add: toHex_fromHex)
  then have "fromHex (s @ t) = fromHex (toHex (fromHex s) @ t)" by simp
  then show ?thesis by (simp only: fromHex_toHex_append)
qed

lemma lowerHex_intToHexString: "lowerHex (intToHexString n w)"
  by (simp add: intToHexString_def lowerHex_hexDigits)

lemma length_intToHexString: "length (intToHexString n w) = 2 * w"
  by (simp add: intToHexString_def length_hexDigits)

lemma length_fromHex_intToHexString: "length (fromHex (intToHexString n w)) = w"
  by (simp add: length_fromHex lowerHex_intToHexString length_intToHexString)

lemma toHex_fromHex_intToHexString: "toHex (fromHex (intToHexString n w)) = intToHexString n w"
  by (simp add: toHex_fromHex lowerHex_intToHexString length_intToHexString)

lemma fromHex_intToHexString_1: "n < 256 \<Longrightarrow> fromHex (intToHexString n 1) = [of_nat n]"
proof -
  assume n: "n < 256"
  have two: "(2 :: nat) = Suc (Suc 0)" by simp
  have hi: "n div 16 mod 16 < 16" and lo: "n mod 16 < 16" by simp_all
  have "intToHexString n 1 = [hexDigit (n div 16 mod 16), hexDigit (n mod 16)]"
    by (simp add: intToHexString_def two)
  then have "fromHex (intToHexString n 1) = [of_nat (16 * (n div 16 mod 16) + n mod 16)]"
    by (simp add: hexValue_hexDigit [OF hi] hexValue_hexDigit [OF lo])
  moreover from n have "16 * (n div 16 mod 16) + n mod 16 = n" by simp
  ultimately show ?thesis by simp
qed

lemma serializeAddress_eq:
  "serializeAddress a = fromHex (intToHexString (version a) 1) @ fromHex (data a)"
  by (simp add: serializeAddress_def concatBuffer_def appendHexString_def push_def)

lemma length_serializeAddress: "valid_address a \<Longrightarrow> length (serializeAddress a) = 21"
  by (simp add: serializeAddress_eq valid_address_def length_fromHex_intToHexString length_fromHex)

lemma deserializeAddress_serializeAddress:
  assumes "valid_address a"
  shows "deserializeAddress (serializeAddress a @ rest) = Inr (a, rest)"
proof -
  define p where "p = fromHex (intToHexString (version a) 1)"
  define q where "q = fromHex (data a)"
  from assms have v: "version a < 256 ^ 1" and len: "length (data a) = 40" and low: "lowerHex (data a)"
    by (simp_all add: valid_address_def)
  have ser: "serializeAddress a @ rest = p @ q @ rest"
    by (simp add: serializeAddress_eq p_def q_def)
  have lp: "length p = Suc 0"
    unfolding p_def by (simp only: length_fromHex_intToHexString One_nat_def)
  have lq: "length q = 20"
    using len low by (simp add: q_def length_fromHex)
  have r1: "readBuffer (Suc 0) (p @ q @ rest) = Inr (p, q @ rest)"
    using lp by (rule readBuffer_append)
  have r2: "readBuffer 20 (q @ rest) = Inr (q, rest)"
    using lq by (rule readBuffer_append)
  have ver: "hexStringToInt (toHex p) = version a"
    unfolding p_def using v
    by (simp only: toHex_fromHex_intToHexString hexStringToInt_intToHexString)
  have dat: "toHex q = data a"
    using low len by (simp add: q_def toHex_fromHex)
  show ?thesis
    by (simp add: deserializeAddress_def ser r1 r2 ver dat)
qed

lemma serializeLPString_eq:
  "serializeLPString l =
     fromHex (intToHexString (length (content l)) (lengthPrefixBytes l)) @ Buffer_from (content l)"
  by (simp add: serializeLPString_def concatBuffer_def appendHexString_def push_def Let_def
      length_Buffer_from)

lemma deserializeLPString_serializeLPString:
  assumes "lengthPrefixBytes l = 1" and "length (content l) < 256"
  shows "deserializeLPString E (serializeLPString l @ rest) =
           (if length (content l) > MAX_STRING_LENGTH_BYTES E
            then Inl (StringLengthExceedsMaximum (MAX_STRING_LENGTH_BYTES E))
            else Inr (\<lparr>content = content l,
                       lengthPrefixBytes = (if length (content l) = 0 then 1 else length (content l)),
                       maxLengthBytes = MAX_STRING_LENGTH_BYTES E\<rparr>, rest))"
proof -
  let ?n = "length (content l)"
  let ?b = "Buffer_from (content l)"
  have "fromHex (intToHexString ?n (lengthPrefixBytes l)) = [of_nat ?n]"
    using assms(2) by (simp only: assms(1) fromHex_intToHexString_1)
  then have ser: "serializeLPString l @ rest = of_nat ?n # (?b @ rest)"
    by (simp add: serializeLPString_eq)
  have r1: "readUInt8 (serializeLPString l @ rest) = Inr (?n, ?b @ rest)"
    using assms(2) by (simp add: ser readUInt8_def unat_of_nat_byte)
  have r2: "readBuffer ?n (?b @ rest) = Inr (?b, rest)"
    by (rule readBuffer_append) (simp add: length_Buffer_from)
  show ?thesis
    by (simp add: deserializeLPString_def r1 r2 Buffer_toString_from lengthPrefixedString_def
        or_default_def exceedsMaxLengthBytes_def length_Buffer_from)
qed

lemma serializeMemoString_eq:
  assumes "length c \<le> MEMO_MAX_LENGTH_BYTES E"
  shows "serializeMemoString E \<lparr>memo_content = c\<rparr> =
           Buffer_from c @ replicate (MEMO_MAX_LENGTH_BYTES E - length c) 0"
proof -
  let ?M = "MEMO_MAX_LENGTH_BYTES E"
  have "?M * 2 - length (toHex (Buffer_from c)) = 2 * (?M - length c)"
    by (simp add: length_toHex length_Buffer_from)
  then have "rightPadHexToLength (toHex (Buffer_from c)) (?M * 2) =
               toHex (Buffer_from c) @ replicate (2 * (?M - length c)) CHR ''0''"
    by (simp only: rightPadHexToLength_def)
  then show ?thesis
    by (simp add: serializeMemoString_def concatBuffer_def push_def Let_def
        fromHex_toHex_append fromHex_replicate_zero)
qed

lemma length_serializeMemoString:
  "length c \<le> MEMO_MAX_LENGTH_BYTES E \<Longrightarrow>
   length (serializeMemoString E \<lparr>memo_content = c\<rparr>) = MEMO_MAX_LENGTH_BYTES E"
  by (simp add: serializeMemoString_eq length_Buffer_from)

lemma Buffer_toString_append: "Buffer_toString (a @ b) = Buffer_toString a @ Buffer_toString b"
  by (simp add: Buffer_toString_def)

lemma Buffer_toString_zeros: "Buffer_toString (replicate k 0) = replicate k (CHR 0x00)"
  by (simp add: Buffer_toString_def char_of_def)

lemma deserializeMemoString_serializeMemoString:
  assumes "length c \<le> MEMO_MAX_LENGTH_BYTES E"
  shows "deserializeMemoString E (serializeMemoString E \<lparr>memo_content = c\<rparr> @ rest) =
           Inr (\<lparr>memo_content = c @ replicate (MEMO_MAX_LENGTH_BYTES E - length c) (CHR 0x00)\<rparr>, rest)"
proof -
  let ?s = "serializeMemoString E \<lparr>memo_content = c\<rparr>"
  have "readBuffer (MEMO_MAX_LENGTH_BYTES E) (?s @ rest) = Inr (?s, rest)"
    by (rule readBuffer_append) (rule length_serializeMemoString [OF assms])
  then show ?thesis
    by (simp add: deserializeMemoString_def serializeMemoString_eq [OF assms]
        Buffer_toString_append Buffer_toString_from Buffer_toString_zeros)
qed

lemma compressed_loop_eq:
  "compressed_loop ks =
     (if list_all compressed ks then Inr () else Inl PublicKeysMustBeCompressed)"
  by (induction ks) simp_all

lemma shared_validator:
  "c \<noteq> [] \<Longrightarrow> 0 < MEMO_MAX_LENGTH_BYTES E \<Longrightarrow>
   isl (memoString E c) = isl (lengthPrefixedString E c p (Some (MEMO_MAX_LENGTH_BYTES E)))"
  by (simp add: memoString_def lengthPrefixedString_def or_default_def Let_def)

lemma serializePrincipal_Standard:
  "serializePrincipal E (StandardPrincipal a) = PrincipalType_byte E Standard # serializeAddress a"
  by (simp add: serializePrincipal_def concatBuffer_def push_def)

lemma serializePrincipal_Contract:
  "serializePrincipal E (ContractPrincipal a n) =
     PrincipalType_byte E Contract # serializeAddress a @ serializeLPString n"
  by (simp add: serializePrincipal_def concatBuffer_def push_def)

lemma serializeAssetInfo_eq:
  "serializeAssetInfo i =
     serializeAddress (ai_address i) @ serializeLPString (ai_contractName i)
       @ serializeLPString (ai_assetName i)"
  by (simp add: serializeAssetInfo_def concatBuffer_def push_def)

lemma deserializeLPString_content:
  assumes "lengthPrefixBytes l = 1" and "length (content l) < 256"
    and "length (content l) \<le> MAX_STRING_LENGTH_BYTES E"
  obtains l' where "deserializeLPString E (serializeLPString l @ rest) = Inr (l', rest)"
    and "content l' = content l" and "maxLengthBytes l' = MAX_STRING_LENGTH_BYTES E"
proof -
  let ?l' = "\<lparr>content = content l,
              lengthPrefixBytes = (if length (content l) = 0 then 1 else length (content l)),
              maxLengthBytes = MAX_STRING_LENGTH_BYTES E\<rparr>"
  from deserializeLPString_serializeLPString [OF assms(1,2), of E rest] assms(3)
  have "deserializeLPString E (serializeLPString l @ rest) = Inr (?l', rest)"
    by simp
  moreover have "content ?l' = content l" by simp
  moreover have "maxLengthBytes ?l' = MAX_STRING_LENGTH_BYTES E" by simp
  ultimately show thesis by (rule that)
qed

lemma deserializePrincipal_Standard:
  assumes "valid_address a"
  shows "deserializePrincipal E (serializePrincipal E (StandardPrincipal a) @ rest) =
           Inr (StandardPrincipal a, rest)"
  by (simp add: deserializePrincipal_def serializePrincipal_Standard
      readUInt8Enum_PrincipalType_def deserializeAddress_serializeAddress [OF assms])

lemma deserializePrincipal_Contract:
  assumes "valid_address a"
    and "PrincipalType_byte E Contract \<noteq> PrincipalType_byte E Standard"
    and "lengthPrefixBytes n = 1" and "length (content n) < 256"
    and "length (content n) \<le> MAX_STRING_LENGTH_BYTES E"
  obtains n' where
    "deserializePrincipal E (serializePrincipal E (ContractPrincipal a n) @ rest) =
       Inr (ContractPrincipal a n', rest)"
    and "content n' = content n" and "maxLengthBytes n' = MAX_STRING_LENGTH_BYTES E"
proof -
  from assms(3-5) obtain n' where
    n': "deserializeLPString E (serializeLPString n @ rest) = Inr (n', rest)"
      "content n' = content n" "maxLengthBytes n' = MAX_STRING_LENGTH_BYTES E"
    by (rule deserializeLPString_content)
  have addr: "deserializeAddress (serializeAddress a @ serializeLPString n @ rest) =
                Inr (a, serializeLPString n @ rest)"
    using assms(1) by (rule deserializeAddress_serializeAddress)
  have "deserializePrincipal E (serializePrincipal E (ContractPrincipal a n) @ rest) =
          Inr (ContractPrincipal a n', rest)"
    using assms(2)
    by (simp add: deserializePrincipal_def serializePrincipal_Contract
        readUInt8Enum_PrincipalType_def addr n'(1))
  from this n'(2,3) show thesis by (rule that)
qed

lemma deserializeAssetInfo_serializeAssetInfo:
  assumes "valid_address (ai_address i)"
    and "lengthPrefixBytes (ai_contractName i) = 1"
    and "length (content (ai_contractName i)) < 256"
    and "length (content (ai_contractName i)) \<le> MAX_STRING_LENGTH_BYTES E"
    and "lengthPrefixBytes (ai_assetName i) = 1"
    and "length (content (ai_assetName i)) < 256"
    and "length (content (ai_assetName i)) \<le> MAX_STRING_LENGTH_BYTES E"
  obtains c' n' where
    "deserializeAssetInfo E (serializeAssetInfo i @ rest) =
       Inr (\<lparr>ai_type = Some StacksMessageType_AssetInfo, ai_address = ai_address i,
             ai_contractName = c', ai_assetName = n'\<rparr>, rest)"
    and "content c' = content (ai_contractName i)"
    and "content n' = content (ai_assetName i)"
proof -
  let ?tail = "serializeLPString (ai_assetName i) @ rest"
  from assms(2-4) obtain c' where
    c': "deserializeLPString E (serializeLPString (ai_contractName i) @ ?tail) = Inr (c', ?tail)"
      "content c' = content (ai_contractName i)"
    by (rule deserializeLPString_content)
  from assms(5-7) obtain n' where
    n': "deserializeLPString E ?tail = Inr (n', rest)"
      "content n' = content (ai_assetName i)"
    by (rule deserializeLPString_content)
  have addr: "deserializeAddress
                (serializeAddress (ai_address i) @ serializeLPString (ai_contractName i) @ ?tail) =
              Inr (ai_address i, serializeLPString (ai_contractName i) @ ?tail)"
    using assms(1) by (rule deserializeAddress_serializeAddress)
  have "deserializeAssetInfo E (serializeAssetInfo i @ rest) =
       Inr (\<lparr>ai_type = Some StacksMessageType_AssetInfo, ai_address = ai_address i,
             ai_contractName = c', ai_assetName = n'\<rparr>, rest)"
    by (simp add: deserializeAssetInfo_def serializeAssetInfo_eq addr c'(1) n'(1))
  from this c'(2) n'(2) show thesis by (rule that)
qed

lemma hexDigits_numeral:
  "hexDigits (numeral k) n = hexDigits (pred_numeral k) (n div 16) @ [hexDigit (n mod 16)]"
proof -
  have "(numeral k :: nat) = Suc (pred_numeral k)" by (rule numeral_eq_Suc)
  then show ?thesis by (simp only: hexDigits.simps)
qed

lemma be_bytes_numeral:
  "be_bytes (numeral k) n = be_bytes (pred_numeral k) (n div 256) @ [of_nat (n mod 256)]"
proof -
  have "(numeral k :: nat) = Suc (pred_numeral k)" by (rule numeral_eq_Suc)
  then show ?thesis by (simp only: be_bytes.simps)
qed

lemma hexDigit_literals:
  "hexDigit 0 = CHR ''0''" "hexDigit 1 = CHR ''1''" "hexDigit 2 = CHR ''2''"
  "hexDigit 3 = CHR ''3''" "hexDigit 4 = CHR ''4''" "hexDigit 5 = CHR ''5''"
  "hexDigit 6 = CHR ''6''" "hexDigit 7 = CHR ''7''" "hexDigit 8 = CHR ''8''"
  "hexDigit 9 = CHR ''9''" "hexDigit 10 = CHR ''a''" "hexDigit 11 = CHR ''b''"
  "hexDigit 12 = CHR ''c''" "hexDigit 13 = CHR ''d''" "hexDigit 14 = CHR ''e''"
  "hexDigit 15 = CHR ''f''"
  by (simp_all add: hexDigit_def char_of_eq_iff)

lemma fromHex_two_digits:
  assumes "a < 16" and "b < 16"
  shows "fromHex [hexDigit a, hexDigit b] = [of_nat (16 * a + b)]"
  by (simp add: hexValue_hexDigit [OF assms(1)] hexValue_hexDigit [OF assms(2)])

lemma fromHex_intToHexString: "fromHex (intToHexString n w) = be_bytes w n"
proof (induction w arbitrary: n)
  case 0
  show ?case by (simp add: intToHexString_def)
next
  case (Suc w)
  let ?s = "hexDigits (2 * w) (n div 256)"
  let ?t = "[hexDigit (n div 16 mod 16), hexDigit (n mod 16)]"
  have "n div 16 div 16 = n div 256"
    by (simp add: div_mult2_eq [symmetric])
  then have split: "intToHexString n (Suc w) = ?s @ ?t"
    by (simp add: intToHexString_def)
  have nib: "16 * (n div 16 mod 16) + n mod 16 = n mod 256"
    using mod_mult2_eq [of n 16 16] by simp
  have app: "fromHex (?s @ ?t) = fromHex ?s @ fromHex ?t"
    by (rule fromHex_append) (simp_all add: lowerHex_hexDigits length_hexDigits)
  have left: "fromHex ?s = be_bytes w (n div 256)"
    using Suc.IH [of "n div 256"] by (simp add: intToHexString_def)
  have "fromHex ?t = [of_nat (16 * (n div 16 mod 16) + n mod 16)]"
    by (rule fromHex_two_digits) simp_all
  then have right: "fromHex ?t = [of_nat (n mod 256)]"
    by (simp only: nib)
  show ?case
    by (simp only: split app left right be_bytes.simps)
qed

lemma hexStringToInt_toHex_be_bytes:
  assumes "n < 256 ^ w"
  shows "hexStringToInt (toHex (be_bytes w n)) = n"
proof -
  have "toHex (be_bytes w n) = intToHexString n w"
    by (simp only: fromHex_intToHexString [symmetric] toHex_fromHex_intToHexString)
  with assms show ?thesis by (simp only: hexStringToInt_intToHexString)
qed

lemma case_Principal_length:
  "case_Principal E l r = Inr (l', r') \<Longrightarrow> length l' = length l + 1"
  by (auto simp: case_Principal_def split: sum.splits)

lemma case_AssetInfo_length:
  "case_AssetInfo E l r = Inr (l', r') \<Longrightarrow> length l' = length l + 2"
  by (auto simp: case_AssetInfo_def split: sum.splits dest: case_Principal_length)

lemma case_MemoString_length:
  "case_MemoString E l r = Inr (l', r') \<Longrightarrow> length l' = length l + 3"
  by (auto simp: case_MemoString_def split: sum.splits dest: case_AssetInfo_length)

lemma case_LengthPrefixedString_length:
  "case_LengthPrefixedString E l r = Inr (l', r') \<Longrightarrow> length l' = length l + 4"
  by (auto simp: case_LengthPrefixedString_def split: sum.splits dest: case_MemoString_length)

lemma case_Address_length:
  "case_Address E l r = Inr (l', r') \<Longrightarrow> length l' = length l + 5"
  by (auto simp: case_Address_def split: sum.splits dest: case_LengthPrefixedString_length)

lemma switch_type_Address: "switch_type E (Inl Address) l r = case_Address E l r"
  by (simp add: switch_type_def)

lemma list_loop_Address_length:
  "list_loop E (Inl Address) n l r = Inr (l', r') \<Longrightarrow> length l' = length l + 5 * n"
proof (induction n arbitrary: l r)
  case 0
  then show ?case by simp
next
  case (Suc n)
  from Suc.prems obtain l1 r1 where
    step: "case_Address E l r = Inr (l1, r1)" and rest: "list_loop E (Inl Address) n l1 r1 = Inr (l', r')"
    by (auto simp: switch_type_Address split: sum.splits)
  from case_Address_length [OF step] Suc.IH [OF rest] show ?case by simp
qed

lemma deserializeLengthPrefixedList_Address_length:
  assumes "deserializeLengthPrefixedList E r N (Inl Address) = Inr (res, r')"
  shows "length (list_values res) = 5 * hexStringToInt (toHex (take N r))"
proof -
  from assms obtain l where
    loop: "list_loop E (Inl Address) (hexStringToInt (toHex (take N r))) [] (drop N r) = Inr (l, r')"
    and res: "res = lengthPrefixedList l (Some N)"
    by (auto simp: deserializeLengthPrefixedList_def readBuffer_def split: if_splits sum.splits)
  from list_loop_Address_length [OF loop] res show ?thesis
    by (simp add: lengthPrefixedList_def)
qed

lemma serializeStacksMessage_Address:
  "serializeStacksMessage E (MAddress a) = Inr (Some (serializeAddress a))"
  by (simp add: serializeStacksMessage_def serializeAddress_on_def returned_def)

lemma serializeStacksMessage_Principal:
  "serializeStacksMessage E (MPrincipal p) =
     (if PrincipalType_value E (principal_type p) = StacksMessageType_value Address
      then Inl TypeError else Inr (Some (serializePrincipal E p)))"
  by (cases p)
     (simp_all add: serializeStacksMessage_def serializeAddress_on_def serializePrincipal_on_def
        returned_def)

lemma serializeStacksMessage_LengthPrefixedString:
  "serializeStacksMessage E (MLengthPrefixedString l) =
     (if principal_tag E (StacksMessageType_value LengthPrefixedString)
      then Inl TypeError else Inr (Some (serializeLPString l)))"
  by (simp add: serializeStacksMessage_def principal_tag_def serializePrincipal_on_def
      returned_def)

lemma serializeStacksMessage_MemoString:
  "serializeStacksMessage E (MMemoString m) =
     (if principal_tag E (StacksMessageType_value MemoString)
      then Inl TypeError else Inr (Some (serializeMemoString E m)))"
  by (simp add: serializeStacksMessage_def principal_tag_def serializePrincipal_on_def
      returned_def)

lemma serializeStacksMessage_AssetInfo_untyped:
  "ai_type i = None \<Longrightarrow> serializeStacksMessage E (MAssetInfo i) = Inr None"
  by (simp add: serializeStacksMessage_def)

lemma serializeStacksMessage_AssetInfo_typed:
  assumes "ai_type i = Some StacksMessageType_AssetInfo"
  shows "serializeStacksMessage E (MAssetInfo i) =
     (if principal_tag E (StacksMessageType_value AssetInfo)
      then Inr (Some (3 # serializeAddress (ai_address i)
                        @ (if PrincipalType_value E Contract = StacksMessageType_value AssetInfo
                           then serializeLPString (ai_contractName i) else [])))
      else Inr (Some (serializeAssetInfo i)))"
  using assms
  by (auto simp: serializeStacksMessage_def principal_tag_def serializePrincipal_on_def
      returned_def push_def concatBuffer_def Let_def)

lemma not_principal_tag_example_env:
  "\<not> principal_tag example_env (StacksMessageType_value LengthPrefixedString)"
  "\<not> principal_tag example_env (StacksMessageType_value MemoString)"
  "\<not> principal_tag example_env (StacksMessageType_value AssetInfo)"
  by (simp_all add: principal_tag_def PrincipalType_value_def example_env_def)

lemma amount_1000: "toArrayLike_be 1000 8 = Inr [0, 0, 0, 0, 0, 0, 3, 232]"
proof -
  have "be_bytes 8 1000 = [0, 0, 0, 0, 0, 0, 3, 232]"
    by (simp add: be_bytes_numeral)
  moreover have "(1000 :: nat) < 256 ^ 8" by simp
  ultimately show ?thesis by (simp only: toArrayLike_be_def if_True)
qed

lemma serializeMemoString_empty:
  "serializeMemoString E \<lparr>memo_content = []\<rparr> = replicate (MEMO_MAX_LENGTH_BYTES E) 0"
  using serializeMemoString_eq [of "[]" E] by (simp add: Buffer_from_def)

lemma deserializeMemoString_zeros:
  "deserializeMemoString E (replicate (MEMO_MAX_LENGTH_BYTES E) 0) =
     Inr (\<lparr>memo_content = replicate (MEMO_MAX_LENGTH_BYTES E) (CHR 0x00)\<rparr>, [])"
  using deserializeMemoString_serializeMemoString [of "[]" E "[]"]
  by (simp add: serializeMemoString_empty)

lemma serializePayload_TokenTransfer:
  assumes "toArrayLike_be n 8 = Inr amountBytes"
    and "\<not> principal_tag E (StacksMessageType_value MemoString)"
  shows "serializePayload E (TokenTransferPayload a n m) =
           Inr (PayloadType_byte E TokenTransfer # serializeAddress a @ amountBytes
                  @ serializeMemoString E m)"
  using assms(2)
  by (simp add: serializePayload_def push_message_def serializeStacksMessage_Address
      serializeStacksMessage_MemoString appendByte_def push_def concatBuffer_def assms(1))

lemma serializePayload_TokenTransfer_collision:
  assumes "toArrayLike_be n 8 = Inr amountBytes"
    and "principal_tag E (StacksMessageType_value MemoString)"
  shows "serializePayload E (TokenTransferPayload a n m) = Inl TypeError"
  using assms(2)
  by (simp add: serializePayload_def push_message_def serializeStacksMessage_Address
      serializeStacksMessage_MemoString appendByte_def push_def assms(1))

lemma hexStringToInt_amount_1000: "hexStringToInt (toHex [0, 0, 0, 0, 0, 0, 3, 232]) = 1000"
proof -
  have "be_bytes 8 1000 = [0, 0, 0, 0, 0, 0, 3, 232]"
    by (simp add: be_bytes_numeral)
  moreover have "(1000 :: nat) < 256 ^ 8" by simp
  ultimately show ?thesis using hexStringToInt_toHex_be_bytes [of 1000 8] by simp
qed

section \<open>Round trips\<close>

text \<open>
  C1, as the claim states it: for every kind and every valid value, deserializing the
  serialization gives the value back in every field, the \<open>lengthPrefixBytes\<close> of a
  LengthPrefixedString included. A code body string is valid, built by \<open>codeBodyString\<close>
  with a 4-byte prefix; \<open>deserializeLPString\<close> reads one byte of length, finds 0, and returns
  the empty content with prefix width 1, leaving the rest of the bytes unread. A memo is
  valid when shorter than the fixed width; \<open>deserializeMemoString\<close> returns the padding as
  part of the content.
\<close>

theorem roundtrip_counterexample:
  "codeBodyString example_env ''ab'' =
     Inr \<lparr>content = ''ab'', lengthPrefixBytes = 4, maxLengthBytes = 100000\<rparr> \<and>
   serializeLPString \<lparr>content = ''ab'', lengthPrefixBytes = 4, maxLengthBytes = 100000\<rparr> =
     [0, 0, 0, 2, 97, 98] \<and>
   deserializeLPString example_env [0, 0, 0, 2, 97, 98] =
     Inr (\<lparr>content = [], lengthPrefixBytes = 1, maxLengthBytes = 128\<rparr>, [0, 0, 2, 97, 98]) \<and>
   memoString example_env ''hi'' = Inr \<lparr>memo_content = ''hi''\<rparr> \<and>
   deserializeMemoString example_env (serializeMemoString example_env \<lparr>memo_content = ''hi''\<rparr>) =
     Inr (\<lparr>memo_content = ''hi'' @ replicate 32 (CHR 0x00)\<rparr>, [])"
proof -
  have 1: "codeBodyString example_env ''ab'' =
     Inr \<lparr>content = ''ab'', lengthPrefixBytes = 4, maxLengthBytes = 100000\<rparr>"
    by (simp add: codeBodyString_def lengthPrefixedString_def or_default_def
        exceedsMaxLengthBytes_def Buffer_from_def)
  have b: "be_bytes 4 2 = [0, 0, 0, 2]" by (simp add: be_bytes_numeral)
  have l: "length ''ab'' = 2" by simp
  have c: "Buffer_from ''ab'' = [97, 98]" by (simp add: Buffer_from_def)
  have "serializeLPString \<lparr>content = ''ab'', lengthPrefixBytes = 4, maxLengthBytes = 100000\<rparr> =
          be_bytes 4 (length ''ab'') @ Buffer_from ''ab''"
    by (simp add: serializeLPString_eq fromHex_intToHexString)
  then have 2: "serializeLPString \<lparr>content = ''ab'', lengthPrefixBytes = 4, maxLengthBytes = 100000\<rparr> =
     [0, 0, 0, 2, 97, 98]"
    by (simp only: l b c) simp
  have 3: "deserializeLPString example_env [0, 0, 0, 2, 97, 98] =
     Inr (\<lparr>content = [], lengthPrefixBytes = 1, maxLengthBytes = 128\<rparr>, [0, 0, 2, 97, 98])"
    by (simp add: deserializeLPString_def readUInt8_def readBuffer_def Buffer_toString_def
        lengthPrefixedString_def or_default_def exceedsMaxLengthBytes_def Buffer_from_def
        example_env_def)
  have 4: "memoString example_env ''hi'' = Inr \<lparr>memo_content = ''hi''\<rparr>"
    by (simp add: memoString_def exceedsMaxLengthBytes_def Buffer_from_def example_env_def)
  have "length ''hi'' \<le> MEMO_MAX_LENGTH_BYTES example_env" by (simp add: example_env_def)
  from deserializeMemoString_serializeMemoString [OF this, of "[]"]
  have 5: "deserializeMemoString example_env
             (serializeMemoString example_env \<lparr>memo_content = ''hi''\<rparr>) =
           Inr (\<lparr>memo_content = ''hi'' @ replicate 32 (CHR 0x00)\<rparr>, [])"
    by (simp add: example_env_def)
  from 1 2 3 4 5 show ?thesis by (intro conjI)
qed

text \<open>
  C1, amended. An Address (one-byte version, 40 lower-case hexadecimal digits of data) and
  a StandardPrincipal over it come back equal in every field. A MemoString comes back with
  its content right-padded with NUL characters to \<open>MEMO_MAX_LENGTH_BYTES\<close>, so it comes back
  equal exactly when its content fills that width. A LengthPrefixedString is read back with
  a one-byte length whatever its \<open>lengthPrefixBytes\<close>: one written with
  \<open>lengthPrefixBytes = 1\<close>, content shorter than 256 bytes and no longer than
  \<open>MAX_STRING_LENGTH_BYTES\<close>, comes back with its content, and with \<open>maxLengthBytes\<close> set to
  \<open>MAX_STRING_LENGTH_BYTES\<close>; the same holds for the name of a ContractPrincipal (when the
  two principal tags differ) and for the two names of an AssetInfo, whose address and type
  come back unchanged. Nothing is stated about the \<open>lengthPrefixBytes\<close> of a decoded string.
\<close>

theorem roundtrip_by_kind:
  "(valid_address a \<longrightarrow> deserializeAddress (serializeAddress a @ rest) = Inr (a, rest)) \<and>
   (valid_address a \<longrightarrow>
      deserializePrincipal E (serializePrincipal E (StandardPrincipal a) @ rest) =
        Inr (StandardPrincipal a, rest)) \<and>
   (length c \<le> MEMO_MAX_LENGTH_BYTES E \<longrightarrow>
      deserializeMemoString E (serializeMemoString E \<lparr>memo_content = c\<rparr> @ rest) =
        Inr (\<lparr>memo_content = c @ replicate (MEMO_MAX_LENGTH_BYTES E - length c) (CHR 0x00)\<rparr>,
             rest)) \<and>
   (length c = MEMO_MAX_LENGTH_BYTES E \<longrightarrow>
      deserializeMemoString E (serializeMemoString E \<lparr>memo_content = c\<rparr> @ rest) =
        Inr (\<lparr>memo_content = c\<rparr>, rest)) \<and>
   (readable_back E l \<longrightarrow>
      (\<exists>l'. deserializeLPString E (serializeLPString l @ rest) = Inr (l', rest) \<and>
            content l' = content l \<and> maxLengthBytes l' = MAX_STRING_LENGTH_BYTES E)) \<and>
   (valid_address a \<and> readable_back E l \<and>
    PrincipalType_byte E Contract \<noteq> PrincipalType_byte E Standard \<longrightarrow>
      (\<exists>l'. deserializePrincipal E (serializePrincipal E (ContractPrincipal a l) @ rest) =
              Inr (ContractPrincipal a l', rest) \<and>
            content l' = content l \<and> maxLengthBytes l' = MAX_STRING_LENGTH_BYTES E)) \<and>
   (valid_address (ai_address i) \<and> readable_back E (ai_contractName i) \<and>
    readable_back E (ai_assetName i) \<longrightarrow>
      (\<exists>c' n'. deserializeAssetInfo E (serializeAssetInfo i @ rest) =
                Inr (\<lparr>ai_type = Some StacksMessageType_AssetInfo, ai_address = ai_address i,
                      ai_contractName = c', ai_assetName = n'\<rparr>, rest) \<and>
              content c' = content (ai_contractName i) \<and>
              content n' = content (ai_assetName i)))"
proof (intro conjI impI)
  assume "valid_address a"
  then show "deserializeAddress (serializeAddress a @ rest) = Inr (a, rest)"
    by (rule deserializeAddress_serializeAddress)
next
  assume "valid_address a"
  then show "deserializePrincipal E (serializePrincipal E (StandardPrincipal a) @ rest) =
        Inr (StandardPrincipal a, rest)"
    by (rule deserializePrincipal_Standard)
next
  assume "length c \<le> MEMO_MAX_LENGTH_BYTES E"
  then show "deserializeMemoString E (serializeMemoString E \<lparr>memo_content = c\<rparr> @ rest) =
        Inr (\<lparr>memo_content = c @ replicate (MEMO_MAX_LENGTH_BYTES E - length c) (CHR 0x00)\<rparr>,
             rest)"
    by (rule deserializeMemoString_serializeMemoString)
next
  assume eq: "length c = MEMO_MAX_LENGTH_BYTES E"
  then have "length c \<le> MEMO_MAX_LENGTH_BYTES E" by simp
  from deserializeMemoString_serializeMemoString [OF this, of rest] eq
  show "deserializeMemoString E (serializeMemoString E \<lparr>memo_content = c\<rparr> @ rest) =
        Inr (\<lparr>memo_content = c\<rparr>, rest)"
    by simp
next
  assume "readable_back E l"
  then have "lengthPrefixBytes l = 1" "length (content l) < 256"
    "length (content l) \<le> MAX_STRING_LENGTH_BYTES E"
    by (simp_all add: readable_back_def)
  then obtain l' where "deserializeLPString E (serializeLPString l @ rest) = Inr (l', rest)"
    "content l' = content l" "maxLengthBytes l' = MAX_STRING_LENGTH_BYTES E"
    by (rule deserializeLPString_content)
  then show "\<exists>l'. deserializeLPString E (serializeLPString l @ rest) = Inr (l', rest) \<and>
            content l' = content l \<and> maxLengthBytes l' = MAX_STRING_LENGTH_BYTES E"
    by blast
next
  assume h: "valid_address a \<and> readable_back E l \<and>
    PrincipalType_byte E Contract \<noteq> PrincipalType_byte E Standard"
  then have va: "valid_address a"
    and ne: "PrincipalType_byte E Contract \<noteq> PrincipalType_byte E Standard"
    and "lengthPrefixBytes l = 1" "length (content l) < 256"
    "length (content l) \<le> MAX_STRING_LENGTH_BYTES E"
    by (simp_all add: readable_back_def)
  with deserializePrincipal_Contract [of a E l rest]
  show "\<exists>l'. deserializePrincipal E (serializePrincipal E (ContractPrincipal a l) @ rest) =
              Inr (ContractPrincipal a l', rest) \<and>
            content l' = content l \<and> maxLengthBytes l' = MAX_STRING_LENGTH_BYTES E"
    by blast
next
  assume h: "valid_address (ai_address i) \<and> readable_back E (ai_contractName i) \<and>
    readable_back E (ai_assetName i)"
  then have "valid_address (ai_address i)"
    "lengthPrefixBytes (ai_contractName i) = 1"
    "length (content (ai_contractName i)) < 256"
    "length (content (ai_contractName i)) \<le> MAX_STRING_LENGTH_BYTES E"
    "lengthPrefixBytes (ai_assetName i) = 1"
    "length (content (ai_assetName i)) < 256"
    "length (content (ai_assetName i)) \<le> MAX_STRING_LENGTH_BYTES E"
    by (simp_all add: readable_back_def)
  with deserializeAssetInfo_serializeAssetInfo [of i E rest]
  show "\<exists>c' n'. deserializeAssetInfo E (serializeAssetInfo i @ rest) =
                Inr (\<lparr>ai_type = Some StacksMessageType_AssetInfo, ai_address = ai_address i,
                      ai_contractName = c', ai_assetName = n'\<rparr>, rest) \<and>
              content c' = content (ai_contractName i) \<and>
              content n' = content (ai_assetName i)"
    by blast
qed

theorem roundtrip_by_kind_witness:
  "deserializeAddress
     (serializeAddress \<lparr>version = 22, data = ''a46ff88886c2ef9762d970b4d2c63678835bd39d''\<rparr>) =
     Inr (\<lparr>version = 22, data = ''a46ff88886c2ef9762d970b4d2c63678835bd39d''\<rparr>, []) \<and>
   deserializePrincipal example_env
     (serializePrincipal example_env
        (StandardPrincipal \<lparr>version = 22, data = ''a46ff88886c2ef9762d970b4d2c63678835bd39d''\<rparr>)) =
     Inr (StandardPrincipal \<lparr>version = 22, data = ''a46ff88886c2ef9762d970b4d2c63678835bd39d''\<rparr>,
          []) \<and>
   deserializeMemoString example_env (serializeMemoString example_env \<lparr>memo_content = ''hi''\<rparr>) =
     Inr (\<lparr>memo_content = ''hi'' @ replicate 32 (CHR 0x00)\<rparr>, []) \<and>
   deserializeMemoString example_env
     (serializeMemoString example_env \<lparr>memo_content = replicate 34 CHR ''m''\<rparr>) =
     Inr (\<lparr>memo_content = replicate 34 CHR ''m''\<rparr>, []) \<and>
   (\<exists>l'. deserializeLPString example_env
           (serializeLPString \<lparr>content = ''ab'', lengthPrefixBytes = 1, maxLengthBytes = 128\<rparr>) =
           Inr (l', []) \<and> content l' = ''ab'' \<and> maxLengthBytes l' = 128) \<and>
   (\<exists>l'. deserializePrincipal example_env
           (serializePrincipal example_env
              (ContractPrincipal
                 \<lparr>version = 22, data = ''a46ff88886c2ef9762d970b4d2c63678835bd39d''\<rparr>
                 \<lparr>content = ''ab'', lengthPrefixBytes = 1, maxLengthBytes = 128\<rparr>)) =
           Inr (ContractPrincipal
                  \<lparr>version = 22, data = ''a46ff88886c2ef9762d970b4d2c63678835bd39d''\<rparr> l', []) \<and>
         content l' = ''ab'') \<and>
   (\<exists>c' n'. deserializeAssetInfo example_env
              (serializeAssetInfo
                 \<lparr>ai_type = Some StacksMessageType_AssetInfo,
                  ai_address = \<lparr>version = 22, data = ''a46ff88886c2ef9762d970b4d2c63678835bd39d''\<rparr>,
                  ai_contractName = \<lparr>content = ''ab'', lengthPrefixBytes = 1, maxLengthBytes = 128\<rparr>,
                  ai_assetName = \<lparr>content = ''ab'', lengthPrefixBytes = 1, maxLengthBytes = 128\<rparr>\<rparr>) =
              Inr (\<lparr>ai_type = Some StacksMessageType_AssetInfo,
                    ai_address = \<lparr>version = 22, data = ''a46ff88886c2ef9762d970b4d2c63678835bd39d''\<rparr>,
                    ai_contractName = c', ai_assetName = n'\<rparr>, []) \<and>
            content c' = ''ab'' \<and> content n' = ''ab'')"
proof -
  let ?a = "\<lparr>version = 22, data = ''a46ff88886c2ef9762d970b4d2c63678835bd39d''\<rparr>"
  let ?l = "\<lparr>content = ''ab'', lengthPrefixBytes = 1, maxLengthBytes = 128\<rparr>"
  let ?i = "\<lparr>ai_type = Some StacksMessageType_AssetInfo, ai_address = ?a,
            ai_contractName = ?l, ai_assetName = ?l\<rparr>"
  have va: "valid_address ?a"
    by (simp add: valid_address_def lowerHex_def lowerHexChar_def)
  have rl: "readable_back example_env ?l"
    by (simp add: readable_back_def example_env_def)
  have ne: "PrincipalType_byte example_env Contract \<noteq> PrincipalType_byte example_env Standard"
    by (simp add: example_env_def)
  have M: "MEMO_MAX_LENGTH_BYTES example_env = 34" and X: "MAX_STRING_LENGTH_BYTES example_env = 128"
    by (simp_all add: example_env_def)
  have hi: "length ''hi'' \<le> MEMO_MAX_LENGTH_BYTES example_env" by (simp add: M)
  have full: "length (replicate 34 CHR ''m'') = MEMO_MAX_LENGTH_BYTES example_env" by (simp add: M)
  note T1 = roundtrip_by_kind [of ?a "[]" example_env "''hi''" ?l ?i]
  note T2 = roundtrip_by_kind [of ?a "[]" example_env "replicate 34 CHR ''m''" ?l ?i]
  from T1 va have 1: "deserializeAddress (serializeAddress ?a) = Inr (?a, [])"
    by simp
  from T1 va have 2: "deserializePrincipal example_env
         (serializePrincipal example_env (StandardPrincipal ?a)) = Inr (StandardPrincipal ?a, [])"
    by simp
  from T1 hi have 3: "deserializeMemoString example_env
         (serializeMemoString example_env \<lparr>memo_content = ''hi''\<rparr>) =
       Inr (\<lparr>memo_content = ''hi'' @ replicate 32 (CHR 0x00)\<rparr>, [])"
    by (simp add: M)
  from T2 full have 4: "deserializeMemoString example_env
         (serializeMemoString example_env \<lparr>memo_content = replicate 34 CHR ''m''\<rparr>) =
       Inr (\<lparr>memo_content = replicate 34 CHR ''m''\<rparr>, [])"
    by simp
  from T1 rl have 5: "\<exists>l'. deserializeLPString example_env (serializeLPString ?l) = Inr (l', []) \<and>
         content l' = ''ab'' \<and> maxLengthBytes l' = 128"
    by (simp add: X)
  from T1 va rl ne have 6: "\<exists>l'. deserializePrincipal example_env
           (serializePrincipal example_env (ContractPrincipal ?a ?l)) =
           Inr (ContractPrincipal ?a l', []) \<and> content l' = ''ab''"
    by auto
  from T1 va rl have 7: "\<exists>c' n'. deserializeAssetInfo example_env (serializeAssetInfo ?i) =
              Inr (\<lparr>ai_type = Some StacksMessageType_AssetInfo, ai_address = ?a,
                    ai_contractName = c', ai_assetName = n'\<rparr>, []) \<and>
            content c' = ''ab'' \<and> content n' = ''ab''"
    by simp
  from 1 2 3 4 5 6 7 show ?thesis by (intro conjI)
qed

section \<open>Length-prefixed lists\<close>

text \<open>
  C2. The claim asks that \<open>deserializeLengthPrefixedList\<close> decode exactly as many elements
  as the count says, each of the kind supplied by the caller. The cases of the \<open>switch\<close> in
  the loop have no \<open>break\<close>, so for the kind Address each iteration goes on to decode a
  length-prefixed string, a memo, an asset info and a principal as well. On the wire form of
  a list of one address (count 1 in one byte, then the 21 bytes of the address) the call
  fails at the end of the buffer instead of returning the address; when those bytes are
  followed by an (empty) string, a memo, an asset info and a principal, the call returns a
  list of five values of five kinds for the count 1.
\<close>

theorem deserializeLengthPrefixedList_falls_through:
  "deserializeLengthPrefixedList example_env
     (1 # serializeAddress \<lparr>version = 22, data = ''a46ff88886c2ef9762d970b4d2c63678835bd39d''\<rparr>)
     1 (Inl Address) = Inl UnexpectedEof \<and>
   deserializeLengthPrefixedList example_env
     (1 # serializeAddress \<lparr>version = 22, data = ''a46ff88886c2ef9762d970b4d2c63678835bd39d''\<rparr>
        @ serializeLPString \<lparr>content = [], lengthPrefixBytes = 1, maxLengthBytes = 128\<rparr>
        @ serializeMemoString example_env \<lparr>memo_content = replicate 34 CHR ''m''\<rparr>
        @ serializeAssetInfo
            \<lparr>ai_type = Some StacksMessageType_AssetInfo,
             ai_address = \<lparr>version = 22, data = ''a46ff88886c2ef9762d970b4d2c63678835bd39d''\<rparr>,
             ai_contractName = \<lparr>content = [], lengthPrefixBytes = 1, maxLengthBytes = 128\<rparr>,
             ai_assetName = \<lparr>content = [], lengthPrefixBytes = 1, maxLengthBytes = 128\<rparr>\<rparr>
        @ serializePrincipal example_env
            (StandardPrincipal \<lparr>version = 22, data = ''a46ff88886c2ef9762d970b4d2c63678835bd39d''\<rparr>))
     1 (Inl Address) =
     Inr (\<lparr>list_lengthPrefixBytes = 1,
           list_values =
             [MAddress \<lparr>version = 22, data = ''a46ff88886c2ef9762d970b4d2c63678835bd39d''\<rparr>,
              MLengthPrefixedString \<lparr>content = [], lengthPrefixBytes = 1, maxLengthBytes = 128\<rparr>,
              MMemoString \<lparr>memo_content = replicate 34 CHR ''m''\<rparr>,
              MAssetInfo
                \<lparr>ai_type = Some StacksMessageType_AssetInfo,
                 ai_address = \<lparr>version = 22, data = ''a46ff88886c2ef9762d970b4d2c63678835bd39d''\<rparr>,
                 ai_contractName = \<lparr>content = [], lengthPrefixBytes = 1, maxLengthBytes = 128\<rparr>,
                 ai_assetName = \<lparr>content = [], lengthPrefixBytes = 1, maxLengthBytes = 128\<rparr>\<rparr>,
              MPrincipal
                (StandardPrincipal
                   \<lparr>version = 22, data = ''a46ff88886c2ef9762d970b4d2c63678835bd39d''\<rparr>)]\<rparr>,
          [])"
proof -
  define a where "a = \<lparr>version = 22, data = ''a46ff88886c2ef9762d970b4d2c63678835bd39d''\<rparr>"
  define l where "l = \<lparr>content = [], lengthPrefixBytes = 1, maxLengthBytes = 128\<rparr>"
  define m where "m = \<lparr>memo_content = replicate 34 CHR ''m''\<rparr>"
  define i where "i = \<lparr>ai_type = Some StacksMessageType_AssetInfo, ai_address = a,
                        ai_contractName = l, ai_assetName = l\<rparr>"
  define p where "p = StandardPrincipal a"
  let ?E = example_env
  have va: "valid_address a"
    by (simp add: a_def valid_address_def lowerHex_def lowerHexChar_def)
  have count: "hexStringToInt (toHex [1]) = Suc 0"
    using hexStringToInt_toHex_be_bytes [of 1 1] by simp
  have prefix: "readBuffer (Suc 0) (1 # bs) = Inr ([1], bs)" for bs :: Buffer
    by (simp add: readBuffer_def)
  have addr: "deserializeAddress (serializeAddress a @ bs) = Inr (a, bs)" for bs
    using va by (rule deserializeAddress_serializeAddress)
  have lps: "deserializeLPString ?E (serializeLPString l @ bs) = Inr (l, bs)" for bs
    using deserializeLPString_serializeLPString [of l ?E bs] by (simp add: l_def example_env_def)
  have memo: "deserializeMemoString ?E (serializeMemoString ?E m @ bs) = Inr (m, bs)" for bs
    using deserializeMemoString_serializeMemoString [of "replicate 34 CHR ''m''" ?E bs]
    by (simp add: m_def example_env_def)
  have asset: "deserializeAssetInfo ?E (serializeAssetInfo i @ bs) = Inr (i, bs)" for bs
    using addr [of "serializeLPString l @ serializeLPString l @ bs"]
      lps [of "serializeLPString l @ bs"] lps [of bs]
    by (simp add: deserializeAssetInfo_def serializeAssetInfo_eq i_def)
  have princ: "deserializePrincipal ?E (serializePrincipal ?E p @ bs) = Inr (p, bs)" for bs
    unfolding p_def using va by (rule deserializePrincipal_Standard)
  have eof: "deserializeLPString ?E [] = Inl UnexpectedEof"
    by (simp add: deserializeLPString_def readUInt8_def)
  have 1: "deserializeLengthPrefixedList ?E (1 # serializeAddress a) 1 (Inl Address) =
             Inl UnexpectedEof"
    using addr [of "[]"] eof
    by (simp add: deserializeLengthPrefixedList_def prefix count switch_type_Address case_Address_def
        case_LengthPrefixedString_def)
  have 2: "deserializeLengthPrefixedList ?E
             (1 # serializeAddress a @ serializeLPString l @ serializeMemoString ?E m
                @ serializeAssetInfo i @ serializePrincipal ?E p) 1 (Inl Address) =
           Inr (\<lparr>list_lengthPrefixBytes = 1,
                 list_values = [MAddress a, MLengthPrefixedString l, MMemoString m,
                                MAssetInfo i, MPrincipal p]\<rparr>, [])"
    using princ [of "[]"]
    by (simp add: deserializeLengthPrefixedList_def prefix count switch_type_Address case_Address_def
        case_LengthPrefixedString_def case_MemoString_def case_AssetInfo_def case_Principal_def
        addr lps memo asset lengthPrefixedList_def or_default_def)
  from 1 2 show ?thesis
    unfolding i_def p_def a_def l_def m_def by (intro conjI)
qed

section \<open>The smart contract payload\<close>

text \<open>
  C3. The claim asks that \<open>smartContractPayload(contractName, codeBody)\<close> build its
  \<open>codeBody\<close> field from the \<open>codeBody\<close> argument. The source passes \<open>contractName\<close> to
  \<open>codeBodyString\<close> instead: for the contract name \<open>hello\<close> and a code body that defines a
  function, the \<open>codeBody\<close> field of the payload holds \<open>hello\<close> (with the 4-byte prefix and the
  100000-byte maximum), and the code body given by the caller is lost.
\<close>

theorem smartContractPayload_codeBody_is_contractName:
  "smartContractPayload example_env ''hello'' ''(define-public (f) (ok 1))'' =
     Inr (SmartContractPayload
            \<lparr>content = ''hello'', lengthPrefixBytes = 1, maxLengthBytes = 128\<rparr>
            \<lparr>content = ''hello'', lengthPrefixBytes = 4, maxLengthBytes = 100000\<rparr>)"
  by (simp add: smartContractPayload_def codeBodyString_def lengthPrefixedString_def
      or_default_def exceedsMaxLengthBytes_def Buffer_from_def example_env_def)

section \<open>The token transfer payload\<close>

text \<open>
  C4, as the claim states it: decoding the encoding of a token transfer of amount 1000 with
  an empty memo gives back a memo whose content is the empty string. The memo field of the
  encoding is \<open>MEMO_MAX_LENGTH_BYTES\<close> zero bytes, and \<open>deserializeMemoString\<close> turns all of
  them into the content: 34 NUL characters for a width of 34.
\<close>

theorem tokenTransfer_decoded_memo_counterexample:
  "tokenTransferPayload example_env ''SP2J6ZY48GV1EZ5V2V5RB9MP66SW86PYKKNRV9EJ7'' 1000 None =
     Inr (TokenTransferPayload
            \<lparr>version = 22, data = ''a46ff88886c2ef9762d970b4d2c63678835bd39d''\<rparr> 1000
            \<lparr>memo_content = []\<rparr>) \<and>
   serializePayload example_env
     (TokenTransferPayload
        \<lparr>version = 22, data = ''a46ff88886c2ef9762d970b4d2c63678835bd39d''\<rparr> 1000
        \<lparr>memo_content = []\<rparr>) =
     Inr (0 # serializeAddress \<lparr>version = 22, data = ''a46ff88886c2ef9762d970b4d2c63678835bd39d''\<rparr>
            @ [0, 0, 0, 0, 0, 0, 3, 232] @ replicate 34 0) \<and>
   deserializeMemoString example_env (replicate 34 0) =
     Inr (\<lparr>memo_content = replicate 34 (CHR 0x00)\<rparr>, []) \<and>
   memo_content \<lparr>memo_content = replicate 34 (CHR 0x00)\<rparr> \<noteq> []"
proof -
  define a where "a = \<lparr>version = 22, data = ''a46ff88886c2ef9762d970b4d2c63678835bd39d''\<rparr>"
  have M: "MEMO_MAX_LENGTH_BYTES example_env = 34"
    and tag: "PayloadType_byte example_env TokenTransfer = 0"
    by (simp_all add: example_env_def)
  have "address example_env ''SP2J6ZY48GV1EZ5V2V5RB9MP66SW86PYKKNRV9EJ7'' = Inr a"
    by (simp add: address_def a_def example_env_def)
  moreover have "memoString example_env [] = Inr \<lparr>memo_content = []\<rparr>"
    by (simp add: memoString_def)
  ultimately have 1:
    "tokenTransferPayload example_env ''SP2J6ZY48GV1EZ5V2V5RB9MP66SW86PYKKNRV9EJ7'' 1000 None =
       Inr (TokenTransferPayload a 1000 \<lparr>memo_content = []\<rparr>)"
    by (simp add: tokenTransferPayload_def)
  have 2: "serializePayload example_env (TokenTransferPayload a 1000 \<lparr>memo_content = []\<rparr>) =
       Inr (0 # serializeAddress a @ [0, 0, 0, 0, 0, 0, 3, 232] @ replicate 34 0)"
    by (simp only: serializePayload_TokenTransfer [OF amount_1000 not_principal_tag_example_env(2)]
        serializeMemoString_empty M tag)
  have 3: "deserializeMemoString example_env (replicate 34 0) =
     Inr (\<lparr>memo_content = replicate 34 (CHR 0x00)\<rparr>, [])"
    using deserializeMemoString_zeros [of example_env] by (simp only: M)
  have 4: "memo_content \<lparr>memo_content = replicate 34 (CHR 0x00)\<rparr> \<noteq> []"
    by simp
  from 1 2 3 4 show ?thesis
    unfolding a_def by (intro conjI)
qed

text \<open>
  C4, amended. For a recipient that the address decoder accepts as a well-formed address,
  the amount 1000 and an empty (or omitted) memo, the payload is built. When no member of
  \<open>PrincipalType\<close> has the number of \<open>StacksMessageType.MemoString\<close>, its encoding is the tag
  byte, the 21 bytes of the serialized address, the eight bytes \<open>00 00 00 00 00 00 03 E8\<close>
  and \<open>MEMO_MAX_LENGTH_BYTES\<close> zero bytes; when one has, the dispatcher hands the memo to
  \<open>serializePrincipal\<close> and the encoding fails with a TypeError. Reading the fields of that
  encoding back in order, \<open>deserializeAddress\<close> returns the address, the next eight bytes
  are the big-endian form of 1000, and \<open>deserializeMemoString\<close> returns a memo whose content
  is \<open>MEMO_MAX_LENGTH_BYTES\<close> NUL characters: the padding is not trimmed.
\<close>

theorem tokenTransfer_encoding:
  "c32addressDecode E s = Some (v, d) \<and> valid_address \<lparr>version = v, data = d\<rparr> \<and>
   (memo' = None \<or> memo' = Some []) \<longrightarrow>
     tokenTransferPayload E s 1000 memo' =
       Inr (TokenTransferPayload \<lparr>version = v, data = d\<rparr> 1000 \<lparr>memo_content = []\<rparr>) \<and>
     (\<not> principal_tag E (StacksMessageType_value MemoString) \<longrightarrow>
        serializePayload E
          (TokenTransferPayload \<lparr>version = v, data = d\<rparr> 1000 \<lparr>memo_content = []\<rparr>) =
          Inr (PayloadType_byte E TokenTransfer # serializeAddress \<lparr>version = v, data = d\<rparr>
                 @ [0, 0, 0, 0, 0, 0, 3, 232] @ replicate (MEMO_MAX_LENGTH_BYTES E) 0)) \<and>
     (principal_tag E (StacksMessageType_value MemoString) \<longrightarrow>
        serializePayload E
          (TokenTransferPayload \<lparr>version = v, data = d\<rparr> 1000 \<lparr>memo_content = []\<rparr>) =
          Inl TypeError) \<and>
     length (serializeAddress \<lparr>version = v, data = d\<rparr>) = 21 \<and>
     deserializeAddress
       (serializeAddress \<lparr>version = v, data = d\<rparr>
          @ [0, 0, 0, 0, 0, 0, 3, 232] @ replicate (MEMO_MAX_LENGTH_BYTES E) 0) =
       Inr (\<lparr>version = v, data = d\<rparr>,
            [0, 0, 0, 0, 0, 0, 3, 232] @ replicate (MEMO_MAX_LENGTH_BYTES E) 0) \<and>
     readBuffer 8 ([0, 0, 0, 0, 0, 0, 3, 232] @ replicate (MEMO_MAX_LENGTH_BYTES E) 0) =
       Inr ([0, 0, 0, 0, 0, 0, 3, 232], replicate (MEMO_MAX_LENGTH_BYTES E) 0) \<and>
     hexStringToInt (toHex [0, 0, 0, 0, 0, 0, 3, 232]) = 1000 \<and>
     deserializeMemoString E (replicate (MEMO_MAX_LENGTH_BYTES E) 0) =
       Inr (\<lparr>memo_content = replicate (MEMO_MAX_LENGTH_BYTES E) (CHR 0x00)\<rparr>, [])"
proof (intro impI)
  assume h: "c32addressDecode E s = Some (v, d) \<and> valid_address \<lparr>version = v, data = d\<rparr> \<and>
   (memo' = None \<or> memo' = Some [])"
  define a where "a = \<lparr>version = v, data = d\<rparr>"
  define p where "p = TokenTransferPayload a 1000 \<lparr>memo_content = []\<rparr>"
  define bytes where
    "bytes = [0, 0, 0, 0, 0, 0, 3, 232 :: byte] @ replicate (MEMO_MAX_LENGTH_BYTES E) 0"
  from h have dec: "c32addressDecode E s = Some (v, d)" and va: "valid_address a"
    and mm: "memo' = None \<or> memo' = Some []"
    by (simp_all add: a_def)
  have addr: "address E s = Inr a"
    by (simp add: address_def dec a_def)
  have ms: "memoString E [] = Inr \<lparr>memo_content = []\<rparr>"
    by (simp add: memoString_def)
  from mm have 1: "tokenTransferPayload E s 1000 memo' = Inr p"
    by (auto simp: tokenTransferPayload_def addr ms p_def)
  have 2: "serializePayload E p = Inr (PayloadType_byte E TokenTransfer # serializeAddress a @ bytes)"
    if "\<not> principal_tag E (StacksMessageType_value MemoString)"
    unfolding p_def bytes_def
    by (simp only: serializePayload_TokenTransfer [OF amount_1000 that] serializeMemoString_empty)
  have 3: "serializePayload E p = Inl TypeError"
    if "principal_tag E (StacksMessageType_value MemoString)"
    unfolding p_def using amount_1000 that by (rule serializePayload_TokenTransfer_collision)
  have 4: "length (serializeAddress a) = 21"
    using va by (rule length_serializeAddress)
  have 5: "deserializeAddress (serializeAddress a @ bytes) = Inr (a, bytes)"
    using va by (rule deserializeAddress_serializeAddress)
  have 6: "readBuffer 8 bytes =
       Inr ([0, 0, 0, 0, 0, 0, 3, 232], replicate (MEMO_MAX_LENGTH_BYTES E) 0)"
    unfolding bytes_def by (rule readBuffer_append) simp
  note 7 = hexStringToInt_amount_1000
  note 8 = deserializeMemoString_zeros [of E]
  from 1 2 3 4 5 6 7 8
  have "tokenTransferPayload E s 1000 memo' = Inr p \<and>
     (\<not> principal_tag E (StacksMessageType_value MemoString) \<longrightarrow>
        serializePayload E p =
          Inr (PayloadType_byte E TokenTransfer # serializeAddress a @ bytes)) \<and>
     (principal_tag E (StacksMessageType_value MemoString) \<longrightarrow>
        serializePayload E p = Inl TypeError) \<and>
     length (serializeAddress a) = 21 \<and>
     deserializeAddress (serializeAddress a @ bytes) = Inr (a, bytes) \<and>
     readBuffer 8 bytes =
       Inr ([0, 0, 0, 0, 0, 0, 3, 232], replicate (MEMO_MAX_LENGTH_BYTES E) 0) \<and>
     hexStringToInt (toHex [0, 0, 0, 0, 0, 0, 3, 232]) = 1000 \<and>
     deserializeMemoString E (replicate (MEMO_MAX_LENGTH_BYTES E) 0) =
       Inr (\<lparr>memo_content = replicate (MEMO_MAX_LENGTH_BYTES E) (CHR 0x00)\<rparr>, [])"
    by blast
  then show "tokenTransferPayload E s 1000 memo' =
       Inr (TokenTransferPayload \<lparr>version = v, data = d\<rparr> 1000 \<lparr>memo_content = []\<rparr>) \<and>
     (\<not> principal_tag E (StacksMessageType_value MemoString) \<longrightarrow>
        serializePayload E
          (TokenTransferPayload \<lparr>version = v, data = d\<rparr> 1000 \<lparr>memo_content = []\<rparr>) =
          Inr (PayloadType_byte E TokenTransfer # serializeAddress \<lparr>version = v, data = d\<rparr>
                 @ [0, 0, 0, 0, 0, 0, 3, 232] @ replicate (MEMO_MAX_LENGTH_BYTES E) 0)) \<and>
     (principal_tag E (StacksMessageType_value MemoString) \<longrightarrow>
        serializePayload E
          (TokenTransferPayload \<lparr>version = v, data = d\<rparr> 1000 \<lparr>memo_content = []\<rparr>) =
          Inl TypeError) \<and>
     length (serializeAddress \<lparr>version = v, data = d\<rparr>) = 21 \<and>
     deserializeAddress
       (serializeAddress \<lparr>version = v, data = d\<rparr>
          @ [0, 0, 0, 0, 0, 0, 3, 232] @ replicate (MEMO_MAX_LENGTH_BYTES E) 0) =
       Inr (\<lparr>version = v, data = d\<rparr>,
            [0, 0, 0, 0, 0, 0, 3, 232] @ replicate (MEMO_MAX_LENGTH_BYTES E) 0) \<and>
     readBuffer 8 ([0, 0, 0, 0, 0, 0, 3, 232] @ replicate (MEMO_MAX_LENGTH_BYTES E) 0) =
       Inr ([0, 0, 0, 0, 0, 0, 3, 232], replicate (MEMO_MAX_LENGTH_BYTES E) 0) \<and>
     hexStringToInt (toHex [0, 0, 0, 0, 0, 0, 3, 232]) = 1000 \<and>
     deserializeMemoString E (replicate (MEMO_MAX_LENGTH_BYTES E) 0) =
       Inr (\<lparr>memo_content = replicate (MEMO_MAX_LENGTH_BYTES E) (CHR 0x00)\<rparr>, [])"
    unfolding p_def a_def bytes_def .
qed

theorem tokenTransfer_encoding_witness:
  "tokenTransferPayload example_env ''SP2J6ZY48GV1EZ5V2V5RB9MP66SW86PYKKNRV9EJ7'' 1000 None =
     Inr (TokenTransferPayload
            \<lparr>version = 22, data = ''a46ff88886c2ef9762d970b4d2c63678835bd39d''\<rparr> 1000
            \<lparr>memo_content = []\<rparr>) \<and>
   serializePayload example_env
     (TokenTransferPayload
        \<lparr>version = 22, data = ''a46ff88886c2ef9762d970b4d2c63678835bd39d''\<rparr> 1000
        \<lparr>memo_content = []\<rparr>) =
     Inr (0 # serializeAddress \<lparr>version = 22, data = ''a46ff88886c2ef9762d970b4d2c63678835bd39d''\<rparr>
            @ [0, 0, 0, 0, 0, 0, 3, 232] @ replicate 34 0) \<and>
   length (serializeAddress \<lparr>version = 22, data = ''a46ff88886c2ef9762d970b4d2c63678835bd39d''\<rparr>)
     = 21 \<and>
   deserializeMemoString example_env (replicate 34 0) =
     Inr (\<lparr>memo_content = replicate 34 (CHR 0x00)\<rparr>, []) \<and>
   serializePayload
     (example_env\<lparr>PrincipalType_byte := \<lambda>t. case t of Standard \<Rightarrow> 2 | Contract \<Rightarrow> 3\<rparr>)
     (TokenTransferPayload
        \<lparr>version = 22, data = ''a46ff88886c2ef9762d970b4d2c63678835bd39d''\<rparr> 1000
        \<lparr>memo_content = []\<rparr>) =
     Inl TypeError"
proof -
  define a where "a = \<lparr>version = 22, data = ''a46ff88886c2ef9762d970b4d2c63678835bd39d''\<rparr>"
  define C where
    "C = example_env\<lparr>PrincipalType_byte := \<lambda>t. case t of Standard \<Rightarrow> 2 | Contract \<Rightarrow> 3\<rparr>"
  have M: "MEMO_MAX_LENGTH_BYTES example_env = 34"
    and tag: "PayloadType_byte example_env TokenTransfer = 0"
    by (simp_all add: example_env_def)
  have dec: "c32addressDecode example_env ''SP2J6ZY48GV1EZ5V2V5RB9MP66SW86PYKKNRV9EJ7'' =
               Some (22, ''a46ff88886c2ef9762d970b4d2c63678835bd39d'')"
    by (simp add: example_env_def)
  have decC: "c32addressDecode C ''SP2J6ZY48GV1EZ5V2V5RB9MP66SW86PYKKNRV9EJ7'' =
               Some (22, ''a46ff88886c2ef9762d970b4d2c63678835bd39d'')"
    by (simp add: C_def example_env_def)
  have va: "valid_address \<lparr>version = 22, data = ''a46ff88886c2ef9762d970b4d2c63678835bd39d''\<rparr>"
    by (simp add: valid_address_def lowerHex_def lowerHexChar_def)
  have clash: "principal_tag C (StacksMessageType_value MemoString)"
    by (simp add: principal_tag_def PrincipalType_value_def C_def)
  from tokenTransfer_encoding
    [of example_env "''SP2J6ZY48GV1EZ5V2V5RB9MP66SW86PYKKNRV9EJ7''" 22
        "''a46ff88886c2ef9762d970b4d2c63678835bd39d''" None] dec va
    not_principal_tag_example_env(2)
  have "tokenTransferPayload example_env ''SP2J6ZY48GV1EZ5V2V5RB9MP66SW86PYKKNRV9EJ7'' 1000 None =
          Inr (TokenTransferPayload a 1000 \<lparr>memo_content = []\<rparr>) \<and>
        serializePayload example_env (TokenTransferPayload a 1000 \<lparr>memo_content = []\<rparr>) =
          Inr (PayloadType_byte example_env TokenTransfer # serializeAddress a
                 @ [0, 0, 0, 0, 0, 0, 3, 232] @ replicate (MEMO_MAX_LENGTH_BYTES example_env) 0) \<and>
        length (serializeAddress a) = 21 \<and>
        deserializeMemoString example_env (replicate (MEMO_MAX_LENGTH_BYTES example_env) 0) =
          Inr (\<lparr>memo_content = replicate (MEMO_MAX_LENGTH_BYTES example_env) (CHR 0x00)\<rparr>, [])"
    unfolding a_def by blast
  moreover from tokenTransfer_encoding
    [of C "''SP2J6ZY48GV1EZ5V2V5RB9MP66SW86PYKKNRV9EJ7''" 22
        "''a46ff88886c2ef9762d970b4d2c63678835bd39d''" None] decC va clash
  have "serializePayload C (TokenTransferPayload a 1000 \<lparr>memo_content = []\<rparr>) = Inl TypeError"
    unfolding a_def by blast
  ultimately show ?thesis
    unfolding a_def C_def M tag by blast
qed

section \<open>Length bounds of the string constructors\<close>

text \<open>
  C5, as the claim states it: the LengthPrefixedString constructor fails when the encoded
  byte length of the content is greater than or equal to \<open>maxLengthBytes\<close>. With the
  validator \<open>exceedsMaxLengthBytes\<close> as modelled, a content of 3 bytes under the bound 3 is
  accepted.
\<close>

theorem lengthPrefixedString_boundary_counterexample:
  "length (Buffer_from ''abc'') = 3 \<and>
   lengthPrefixedString example_env ''abc'' None (Some 3) =
     Inr \<lparr>content = ''abc'', lengthPrefixBytes = 1, maxLengthBytes = 3\<rparr>"
  by (simp add: lengthPrefixedString_def or_default_def exceedsMaxLengthBytes_def Buffer_from_def)

text \<open>
  C5, amended: the constructor fails with the string-too-long error exactly when the
  encoded byte length of the content is strictly greater than the bound in force, which is
  \<open>maxLengthBytes\<close>, or \<open>MAX_STRING_LENGTH_BYTES\<close> when \<open>maxLengthBytes\<close> is omitted or 0;
  a content whose byte length equals the bound, or is shorter, is accepted.
\<close>

theorem lengthPrefixedString_fails_iff_longer:
  "(or_default m (MAX_STRING_LENGTH_BYTES E) < length (Buffer_from c) \<longrightarrow>
      lengthPrefixedString E c p m =
        Inl (StringLengthExceedsMaximum (or_default m (MAX_STRING_LENGTH_BYTES E)))) \<and>
   (length (Buffer_from c) \<le> or_default m (MAX_STRING_LENGTH_BYTES E) \<longrightarrow>
      lengthPrefixedString E c p m =
        Inr \<lparr>content = c, lengthPrefixBytes = or_default p 1,
             maxLengthBytes = or_default m (MAX_STRING_LENGTH_BYTES E)\<rparr>)"
  by (simp add: lengthPrefixedString_def exceedsMaxLengthBytes_def Let_def)

theorem lengthPrefixedString_fails_iff_longer_witness:
  "lengthPrefixedString example_env ''abcd'' None (Some 3) = Inl (StringLengthExceedsMaximum 3) \<and>
   lengthPrefixedString example_env ''abc'' None (Some 3) =
     Inr \<lparr>content = ''abc'', lengthPrefixBytes = 1, maxLengthBytes = 3\<rparr> \<and>
   lengthPrefixedString example_env ''ab'' None (Some 3) =
     Inr \<lparr>content = ''ab'', lengthPrefixBytes = 1, maxLengthBytes = 3\<rparr>"
proof -
  have bound: "or_default (Some 3) (MAX_STRING_LENGTH_BYTES example_env) = 3"
    and pre: "or_default None 1 = 1"
    by (simp_all add: or_default_def)
  have over: "or_default (Some 3) (MAX_STRING_LENGTH_BYTES example_env) < length (Buffer_from ''abcd'')"
    by (simp add: bound length_Buffer_from)
  have eq: "length (Buffer_from ''abc'') \<le> or_default (Some 3) (MAX_STRING_LENGTH_BYTES example_env)"
    by (simp add: bound length_Buffer_from)
  have under: "length (Buffer_from ''ab'') \<le> or_default (Some 3) (MAX_STRING_LENGTH_BYTES example_env)"
    by (simp add: bound length_Buffer_from)
  from lengthPrefixedString_fails_iff_longer [of "Some 3" example_env "''abcd''" None] over
  have 1: "lengthPrefixedString example_env ''abcd'' None (Some 3) = Inl (StringLengthExceedsMaximum 3)"
    by (simp only: bound)
  from lengthPrefixedString_fails_iff_longer [of "Some 3" example_env "''abc''" None] eq
  have 2: "lengthPrefixedString example_env ''abc'' None (Some 3) =
     Inr \<lparr>content = ''abc'', lengthPrefixBytes = 1, maxLengthBytes = 3\<rparr>"
    by (simp only: bound pre)
  from lengthPrefixedString_fails_iff_longer [of "Some 3" example_env "''ab''" None] under
  have 3: "lengthPrefixedString example_env ''ab'' None (Some 3) =
     Inr \<lparr>content = ''ab'', lengthPrefixBytes = 1, maxLengthBytes = 3\<rparr>"
    by (simp only: bound pre)
  from 1 2 3 show ?thesis by (intro conjI)
qed

text \<open>
  C6. A memo whose content has at most \<open>MEMO_MAX_LENGTH_BYTES\<close> bytes is accepted, and its
  serialization is the content bytes right-padded with zero bytes to exactly
  \<open>MEMO_MAX_LENGTH_BYTES\<close> bytes; at exactly \<open>MEMO_MAX_LENGTH_BYTES\<close> bytes of content the
  serialization is the content bytes alone. A content one byte over the bound is rejected.
\<close>

theorem memoString_boundary:
  "(length (Buffer_from c) \<le> MEMO_MAX_LENGTH_BYTES E \<longrightarrow>
      memoString E c = Inr \<lparr>memo_content = c\<rparr> \<and>
      serializeMemoString E \<lparr>memo_content = c\<rparr> =
        Buffer_from c @ replicate (MEMO_MAX_LENGTH_BYTES E - length (Buffer_from c)) 0 \<and>
      length (serializeMemoString E \<lparr>memo_content = c\<rparr>) = MEMO_MAX_LENGTH_BYTES E) \<and>
   (length (Buffer_from c) = MEMO_MAX_LENGTH_BYTES E \<longrightarrow>
      memoString E c = Inr \<lparr>memo_content = c\<rparr> \<and>
      serializeMemoString E \<lparr>memo_content = c\<rparr> = Buffer_from c) \<and>
   (length (Buffer_from c) = MEMO_MAX_LENGTH_BYTES E + 1 \<longrightarrow>
      memoString E c = Inl (MemoExceedsMaximumLength (MEMO_MAX_LENGTH_BYTES E)))"
proof (intro conjI impI)
  assume le: "length (Buffer_from c) \<le> MEMO_MAX_LENGTH_BYTES E"
  then show "memoString E c = Inr \<lparr>memo_content = c\<rparr>"
    by (simp add: memoString_def exceedsMaxLengthBytes_def)
  from le have le': "length c \<le> MEMO_MAX_LENGTH_BYTES E" by (simp add: length_Buffer_from)
  from serializeMemoString_eq [OF le']
  show "serializeMemoString E \<lparr>memo_content = c\<rparr> =
        Buffer_from c @ replicate (MEMO_MAX_LENGTH_BYTES E - length (Buffer_from c)) 0"
    by (simp add: length_Buffer_from)
  from le' show "length (serializeMemoString E \<lparr>memo_content = c\<rparr>) = MEMO_MAX_LENGTH_BYTES E"
    by (rule length_serializeMemoString)
next
  assume eq: "length (Buffer_from c) = MEMO_MAX_LENGTH_BYTES E"
  then show "memoString E c = Inr \<lparr>memo_content = c\<rparr>"
    by (simp add: memoString_def exceedsMaxLengthBytes_def)
  from eq have "length c \<le> MEMO_MAX_LENGTH_BYTES E" by (simp add: length_Buffer_from)
  from serializeMemoString_eq [OF this] eq
  show "serializeMemoString E \<lparr>memo_content = c\<rparr> = Buffer_from c"
    by (simp add: length_Buffer_from)
next
  assume "length (Buffer_from c) = MEMO_MAX_LENGTH_BYTES E + 1"
  then show "memoString E c = Inl (MemoExceedsMaximumLength (MEMO_MAX_LENGTH_BYTES E))"
    by (auto simp: memoString_def exceedsMaxLengthBytes_def Buffer_from_def)
qed

theorem memoString_boundary_witness:
  "memoString example_env (replicate 34 CHR ''m'') = Inr \<lparr>memo_content = replicate 34 CHR ''m''\<rparr> \<and>
   serializeMemoString example_env \<lparr>memo_content = replicate 34 CHR ''m''\<rparr> = replicate 34 109 \<and>
   serializeMemoString example_env \<lparr>memo_content = replicate 4 CHR ''m''\<rparr> =
     replicate 4 109 @ replicate 30 0 \<and>
   memoString example_env (replicate 35 CHR ''m'') = Inl (MemoExceedsMaximumLength 34)"
proof -
  have M: "MEMO_MAX_LENGTH_BYTES example_env = 34" by (simp add: example_env_def)
  have b: "Buffer_from (replicate k CHR ''m'') = replicate k 109" for k
    by (simp add: Buffer_from_def)
  have h34: "length (Buffer_from (replicate 34 CHR ''m'')) = MEMO_MAX_LENGTH_BYTES example_env"
    by (simp add: M length_Buffer_from)
  have h4: "length (Buffer_from (replicate 4 CHR ''m'')) \<le> MEMO_MAX_LENGTH_BYTES example_env"
    by (simp add: M length_Buffer_from)
  have h35: "length (Buffer_from (replicate 35 CHR ''m'')) = MEMO_MAX_LENGTH_BYTES example_env + 1"
    by (simp add: M length_Buffer_from)
  from memoString_boundary [of "replicate 34 CHR ''m''" example_env] h34
  have 1: "memoString example_env (replicate 34 CHR ''m'') = Inr \<lparr>memo_content = replicate 34 CHR ''m''\<rparr>"
    and 2: "serializeMemoString example_env \<lparr>memo_content = replicate 34 CHR ''m''\<rparr> = replicate 34 109"
    by (simp_all add: b M)
  from memoString_boundary [of "replicate 4 CHR ''m''" example_env] h4
  have 3: "serializeMemoString example_env \<lparr>memo_content = replicate 4 CHR ''m''\<rparr> =
     replicate 4 109 @ replicate 30 0"
    by (simp add: b M)
  from memoString_boundary [of "replicate 35 CHR ''m''" example_env] h35
  have 4: "memoString example_env (replicate 35 CHR ''m'') = Inl (MemoExceedsMaximumLength 34)"
    by (simp add: b M)
  from 1 2 3 4 show ?thesis by (intro conjI)
qed

section \<open>The coinbase payload\<close>

text \<open>
  C7. Constructing a Coinbase payload fails exactly when the byte length of the buffer
  differs from \<open>COINBASE_BUFFER_LENGTH_BYTES\<close>, and serializing a constructed Coinbase payload
  yields the kind tag followed by the bytes of the buffer, unchanged, of which there are
  \<open>COINBASE_BUFFER_LENGTH_BYTES\<close>.
\<close>

theorem coinbasePayload_fixed_width:
  "(isl (coinbasePayload E b) \<longleftrightarrow> length b \<noteq> COINBASE_BUFFER_LENGTH_BYTES E) \<and>
   (\<forall>p. coinbasePayload E b = Inr p \<longrightarrow>
      serializePayload E p = Inr (PayloadType_byte E Coinbase # b) \<and>
      length (PayloadType_byte E Coinbase # b) = 1 + COINBASE_BUFFER_LENGTH_BYTES E)"
  by (auto simp: coinbasePayload_def serializePayload_def appendByte_def push_def
      concatBuffer_def)

theorem coinbasePayload_fixed_width_witness:
  "coinbasePayload example_env (replicate 32 7) = Inr (CoinbasePayload (replicate 32 7)) \<and>
   serializePayload example_env (CoinbasePayload (replicate 32 7)) = Inr (4 # replicate 32 7) \<and>
   isl (coinbasePayload example_env (replicate 31 7))"
proof -
  have built: "coinbasePayload example_env (replicate 32 7) = Inr (CoinbasePayload (replicate 32 7))"
    by (simp add: coinbasePayload_def example_env_def)
  have short: "length (replicate 31 (7 :: byte)) \<noteq> COINBASE_BUFFER_LENGTH_BYTES example_env"
    by (simp add: example_env_def)
  from coinbasePayload_fixed_width [of example_env "replicate 32 7"] built
  have "serializePayload example_env (CoinbasePayload (replicate 32 7)) =
          Inr (PayloadType_byte example_env Coinbase # replicate 32 7)"
    by blast
  moreover from coinbasePayload_fixed_width [of example_env "replicate 31 7"] short
  have "isl (coinbasePayload example_env (replicate 31 7))"
    by blast
  ultimately show ?thesis
    using built by (simp add: example_env_def)
qed

section \<open>Address derivation from public keys\<close>

text \<open>
  C8. \<open>fromPublicKeys\<close> fails when there is no public key; under a single-signature hash
  mode (P2PKH, P2WPKH) it fails unless there is exactly one key and one required signature;
  under a witness hash mode (P2WPKH, P2WSH) it fails unless every key is compressed; and
  when these validations pass it fails with the hash-mode error for every mode but P2PKH,
  for which it returns the address of the hash of the key. So it succeeds exactly for P2PKH
  with one key and one signature.
\<close>

theorem fromPublicKeys_validation:
  "(ks = [] \<longrightarrow> fromPublicKeys E v hm n ks = Inl InvalidNumberOfPublicKeys) \<and>
   (ks \<noteq> [] \<and> (hm = SerializeP2PKH \<or> hm = SerializeP2WPKH) \<and> \<not> (length ks = 1 \<and> n = 1) \<longrightarrow>
      fromPublicKeys E v hm n ks = Inl InvalidNumberOfPublicKeysOrSignatures) \<and>
   (ks \<noteq> [] \<and> (hm = SerializeP2WPKH \<or> hm = SerializeP2WSH) \<and> \<not> list_all compressed ks \<longrightarrow>
      isl (fromPublicKeys E v hm n ks)) \<and>
   (ks \<noteq> [] \<and> (hm = SerializeP2WSH \<or> hm = SerializeP2WPKH \<and> length ks = 1 \<and> n = 1) \<and>
    \<not> list_all compressed ks \<longrightarrow>
      fromPublicKeys E v hm n ks = Inl PublicKeysMustBeCompressed) \<and>
   (ks \<noteq> [] \<and> (hm = SerializeP2SH \<or> hm = SerializeP2WSH \<and> list_all compressed ks \<or>
                hm = SerializeP2WPKH \<and> length ks = 1 \<and> n = 1 \<and> list_all compressed ks) \<longrightarrow>
      fromPublicKeys E v hm n ks = Inl InvalidAddressHashMode) \<and>
   (hm = SerializeP2PKH \<and> length ks = 1 \<and> n = 1 \<longrightarrow>
      fromPublicKeys E v hm n ks = Inr (addressFromData v (hash_p2pkh E (pk_toString (hd ks))))) \<and>
   (\<not> isl (fromPublicKeys E v hm n ks) \<longleftrightarrow> hm = SerializeP2PKH \<and> length ks = 1 \<and> n = 1)"
proof (cases ks)
  case Nil
  then show ?thesis by (simp add: fromPublicKeys_def)
next
  case (Cons k ks')
  show ?thesis
  proof (cases hm)
    case SerializeP2PKH
    with Cons show ?thesis by (simp add: fromPublicKeys_def)
  next
    case SerializeP2SH
    with Cons show ?thesis by (simp add: fromPublicKeys_def)
  next
    case SerializeP2WPKH
    with Cons show ?thesis
      by (simp add: fromPublicKeys_def compressed_loop_eq del: compressed_loop.simps)
  next
    case SerializeP2WSH
    with Cons show ?thesis
      by (simp add: fromPublicKeys_def compressed_loop_eq del: compressed_loop.simps)
  qed
qed
theorem fromPublicKeys_validation_witness:
  "fromPublicKeys example_env 22 SerializeP2PKH 1 [] = Inl InvalidNumberOfPublicKeys \<and>
   fromPublicKeys example_env 22 SerializeP2PKH 2
       [\<lparr>compressed = True, pk_toString = ''03ab''\<rparr>] =
     Inl InvalidNumberOfPublicKeysOrSignatures \<and>
   fromPublicKeys example_env 22 SerializeP2WSH 1
       [\<lparr>compressed = True, pk_toString = ''03ab''\<rparr>, \<lparr>compressed = False, pk_toString = ''04cd''\<rparr>] =
     Inl PublicKeysMustBeCompressed \<and>
   fromPublicKeys example_env 22 SerializeP2WPKH 1 [\<lparr>compressed = True, pk_toString = ''03ab''\<rparr>] =
     Inl InvalidAddressHashMode \<and>
   fromPublicKeys example_env 22 SerializeP2PKH 1 [\<lparr>compressed = False, pk_toString = ''04cd''\<rparr>] =
     Inr \<lparr>version = 22, data = replicate 40 CHR ''0''\<rparr>"
proof -
  let ?c = "\<lparr>compressed = True, pk_toString = ''03ab''\<rparr>"
  let ?u = "\<lparr>compressed = False, pk_toString = ''04cd''\<rparr>"
  from fromPublicKeys_validation [of "[]" example_env 22 SerializeP2PKH 1]
  have 1: "fromPublicKeys example_env 22 SerializeP2PKH 1 [] = Inl InvalidNumberOfPublicKeys"
    by simp
  from fromPublicKeys_validation [of "[?c]" example_env 22 SerializeP2PKH 2]
  have 2: "fromPublicKeys example_env 22 SerializeP2PKH 2 [?c] =
             Inl InvalidNumberOfPublicKeysOrSignatures"
    by simp
  from fromPublicKeys_validation [of "[?c, ?u]" example_env 22 SerializeP2WSH 1]
  have 3: "fromPublicKeys example_env 22 SerializeP2WSH 1 [?c, ?u] = Inl PublicKeysMustBeCompressed"
    by simp
  from fromPublicKeys_validation [of "[?c]" example_env 22 SerializeP2WPKH 1]
  have 4: "fromPublicKeys example_env 22 SerializeP2WPKH 1 [?c] = Inl InvalidAddressHashMode"
    by simp
  from fromPublicKeys_validation [of "[?u]" example_env 22 SerializeP2PKH 1]
  have 5: "fromPublicKeys example_env 22 SerializeP2PKH 1 [?u] =
             Inr \<lparr>version = 22, data = replicate 40 CHR ''0''\<rparr>"
    by (simp add: addressFromData_def example_env_def)
  from 1 2 3 4 5 show ?thesis by (intro conjI)
qed

section \<open>The poison microblock payload\<close>

text \<open>
  C9, as the claim states it: serializing a PoisonMicroblock payload fails with a
  not-implemented error and yields no wire form made of the kind tag alone. In the source
  the case of the \<open>switch\<close> holds only a comment (to be implemented) and a \<open>break\<close>: the call
  returns, and what it returns is the tag byte alone.
\<close>

theorem serializePayload_poison_counterexample:
  "\<not> isl (serializePayload example_env poisonPayload) \<and>
   serializePayload example_env poisonPayload = Inr [3]"
  by (simp add: serializePayload_def poisonPayload_def appendByte_def push_def
      concatBuffer_def example_env_def)

text \<open>
  C9, amended: serializing a PoisonMicroblock payload does not fail; it returns the
  one-byte kind tag and no body.
\<close>

theorem serializePayload_poison_tag_only:
  "serializePayload E poisonPayload = Inr [PayloadType_byte E PoisonMicroblock]"
  by (simp add: serializePayload_def poisonPayload_def appendByte_def push_def
      concatBuffer_def)

section \<open>The AssetInfo factory and the dispatcher\<close>

text \<open>
  C10. Whenever the factory \<open>assetInfo\<close> returns a value, that value has no \<open>type\<close>
  property, so it matches no case of the \<open>switch\<close> and \<open>serializeStacksMessage\<close> returns
  \<open>undefined\<close> for it, not the wire encoding of the address followed by the two names that
  \<open>serializeAssetInfo\<close> computes. (With the property, and when no principal type has the
  number of AssetInfo, the dispatcher returns that encoding.)
\<close>

theorem assetInfo_not_dispatched:
  "assetInfo E addressString cn an = Inr v \<longrightarrow>
     ai_type v = None \<and>
     message_type E (MAssetInfo v) = None \<and>
     serializeStacksMessage E (MAssetInfo v) = Inr None \<and>
     (\<not> principal_tag E (StacksMessageType_value AssetInfo) \<longrightarrow>
        serializeStacksMessage E (MAssetInfo (v\<lparr>ai_type := Some StacksMessageType_AssetInfo\<rparr>)) =
          Inr (Some (serializeAssetInfo v))) \<and>
     serializeAssetInfo v =
       serializeAddress (ai_address v) @ serializeLPString (ai_contractName v)
         @ serializeLPString (ai_assetName v)"
proof (intro impI)
  assume built: "assetInfo E addressString cn an = Inr v"
  then have untyped: "ai_type v = None"
    by (auto simp: assetInfo_def split: sum.splits)
  then have ty: "message_type E (MAssetInfo v) = None"
    by simp
  from untyped have undef: "serializeStacksMessage E (MAssetInfo v) = Inr None"
    by (rule serializeStacksMessage_AssetInfo_untyped)
  have typed: "serializeStacksMessage E (MAssetInfo (v\<lparr>ai_type := Some StacksMessageType_AssetInfo\<rparr>)) =
          Inr (Some (serializeAssetInfo v))"
    if "\<not> principal_tag E (StacksMessageType_value AssetInfo)"
  proof -
    let ?w = "v\<lparr>ai_type := Some StacksMessageType_AssetInfo\<rparr>"
    have "ai_type ?w = Some StacksMessageType_AssetInfo" by simp
    from serializeStacksMessage_AssetInfo_typed [OF this, of E] that
    have "serializeStacksMessage E (MAssetInfo ?w) = Inr (Some (serializeAssetInfo ?w))"
      by simp
    moreover have "serializeAssetInfo ?w = serializeAssetInfo v"
      by (simp add: serializeAssetInfo_def)
    ultimately show ?thesis by simp
  qed
  have wire: "serializeAssetInfo v =
       serializeAddress (ai_address v) @ serializeLPString (ai_contractName v)
         @ serializeLPString (ai_assetName v)"
    by (rule serializeAssetInfo_eq)
  from untyped ty undef typed wire
  show "ai_type v = None \<and>
     message_type E (MAssetInfo v) = None \<and>
     serializeStacksMessage E (MAssetInfo v) = Inr None \<and>
     (\<not> principal_tag E (StacksMessageType_value AssetInfo) \<longrightarrow>
        serializeStacksMessage E (MAssetInfo (v\<lparr>ai_type := Some StacksMessageType_AssetInfo\<rparr>)) =
          Inr (Some (serializeAssetInfo v))) \<and>
     serializeAssetInfo v =
       serializeAddress (ai_address v) @ serializeLPString (ai_contractName v)
         @ serializeLPString (ai_assetName v)"
    by blast
qed

theorem assetInfo_not_dispatched_witness:
  "assetInfo example_env ''SP2J6ZY48GV1EZ5V2V5RB9MP66SW86PYKKNRV9EJ7'' ''token'' ''coin'' =
     Inr \<lparr>ai_type = None,
          ai_address = \<lparr>version = 22, data = ''a46ff88886c2ef9762d970b4d2c63678835bd39d''\<rparr>,
          ai_contractName = \<lparr>content = ''token'', lengthPrefixBytes = 1, maxLengthBytes = 128\<rparr>,
          ai_assetName = \<lparr>content = ''coin'', lengthPrefixBytes = 1, maxLengthBytes = 128\<rparr>\<rparr> \<and>
   serializeStacksMessage example_env
     (MAssetInfo
        \<lparr>ai_type = None,
          ai_address = \<lparr>version = 22, data = ''a46ff88886c2ef9762d970b4d2c63678835bd39d''\<rparr>,
          ai_contractName = \<lparr>content = ''token'', lengthPrefixBytes = 1, maxLengthBytes = 128\<rparr>,
          ai_assetName = \<lparr>content = ''coin'', lengthPrefixBytes = 1, maxLengthBytes = 128\<rparr>\<rparr>) =
     Inr None \<and>
   serializeStacksMessage example_env
     (MAssetInfo
        (\<lparr>ai_type = None,
          ai_address = \<lparr>version = 22, data = ''a46ff88886c2ef9762d970b4d2c63678835bd39d''\<rparr>,
          ai_contractName = \<lparr>content = ''token'', lengthPrefixBytes = 1, maxLengthBytes = 128\<rparr>,
          ai_assetName = \<lparr>content = ''coin'', lengthPrefixBytes = 1, maxLengthBytes = 128\<rparr>\<rparr>
         \<lparr>ai_type := Some StacksMessageType_AssetInfo\<rparr>)) =
     Inr (Some (serializeAssetInfo
        \<lparr>ai_type = None,
          ai_address = \<lparr>version = 22, data = ''a46ff88886c2ef9762d970b4d2c63678835bd39d''\<rparr>,
          ai_contractName = \<lparr>content = ''token'', lengthPrefixBytes = 1, maxLengthBytes = 128\<rparr>,
          ai_assetName = \<lparr>content = ''coin'', lengthPrefixBytes = 1, maxLengthBytes = 128\<rparr>\<rparr>))"
proof -
  define v where "v = \<lparr>ai_type = None,
          ai_address = \<lparr>version = 22, data = ''a46ff88886c2ef9762d970b4d2c63678835bd39d''\<rparr>,
          ai_contractName = \<lparr>content = ''token'', lengthPrefixBytes = 1, maxLengthBytes = 128\<rparr>,
          ai_assetName = \<lparr>content = ''coin'', lengthPrefixBytes = 1, maxLengthBytes = 128\<rparr>\<rparr>"
  have built:
    "assetInfo example_env ''SP2J6ZY48GV1EZ5V2V5RB9MP66SW86PYKKNRV9EJ7'' ''token'' ''coin'' = Inr v"
    by (simp add: v_def assetInfo_def address_def lengthPrefixedString_def or_default_def
        exceedsMaxLengthBytes_def Buffer_from_def example_env_def)
  note T = assetInfo_not_dispatched
    [of example_env "''SP2J6ZY48GV1EZ5V2V5RB9MP66SW86PYKKNRV9EJ7''" "''token''" "''coin''" v]
  from T built have 1: "serializeStacksMessage example_env (MAssetInfo v) = Inr None"
    by blast
  from T built not_principal_tag_example_env(3)
  have 2: "serializeStacksMessage example_env
             (MAssetInfo (v\<lparr>ai_type := Some StacksMessageType_AssetInfo\<rparr>)) =
           Inr (Some (serializeAssetInfo v))"
    by blast
  from built 1 2 show ?thesis
    unfolding v_def by (intro conjI)
qed

end
